theory Spec2Isabelle
  imports Complex_Main
begin

section \<open>The batch engine of DkProcess.cpp\<close>

text \<open>
  A shallow embedding of the batch processing engine: the processing steps
  (\<^verbatim>\<open>DkResizeBatch\<close>, \<^verbatim>\<open>DkBatchTransform\<close>), the per-file state machine
  (\<^verbatim>\<open>DkBatchProcess\<close>) and the result polling of the runner
  (\<^verbatim>\<open>DkBatchProcessing\<close>).

  Everything the code consumes from outside the file is a parameter of the model:
  the image library, the float arithmetic and the outcome of each file-system call.
  Log lines are the strings of the source, with \<^verbatim>\<open>%1\<close> replaced by concatenation.
\<close>

subsection \<open>External collaborators\<close>

type_synonym path = string
type_synonym QStringList = "string list"

text \<open>\<^verbatim>\<open>QSize\<close>: a pair of ints; \<^verbatim>\<open>transpose()\<close> swaps them. A default-constructed
  size is \<open>(-1, -1)\<close>.\<close>

record QSize =
  sz_width :: int
  sz_height :: int

definition QSize_transpose :: "QSize \<Rightarrow> QSize" where
  "QSize_transpose s = \<lparr>sz_width = sz_height s, sz_height = sz_width s\<rparr>"

definition QSize_default :: QSize where
  "QSize_default = \<lparr>sz_width = - 1, sz_height = - 1\<rparr>"

text \<open>\<^verbatim>\<open>DkImageContainer\<close>: the image and the crop region stored in its metadata.\<close>

record ('img, 'rect) DkImageContainer =
  c_image :: 'img
  c_cropRect :: 'rect

text \<open>
  The image library (\<^verbatim>\<open>QImage\<close>, \<^verbatim>\<open>DkImage\<close>, \<^verbatim>\<open>DkRotatingRect\<close>,
  \<^verbatim>\<open>DkImageContainer::cropImage\<close>) and the arithmetic of \<^verbatim>\<open>float\<close> are opaque:
  \<open>'img\<close> is the type of images, \<open>'rect\<close> of crop regions, \<open>'f\<close> of floats, and every
  operation the code calls on them is a field of this record. Nothing is assumed about
  the float operations, so that a theorem holds for IEEE arithmetic as for any other.
\<close>

record ('img, 'rect, 'f) extern =
  isNull :: "'img \<Rightarrow> bool"
  img_size :: "'img \<Rightarrow> QSize"
  transformed :: "'img \<Rightarrow> int \<Rightarrow> 'img"
  mirrored :: "'img \<Rightarrow> bool \<Rightarrow> bool \<Rightarrow> 'img"
  resizeImage :: "'img \<Rightarrow> QSize \<Rightarrow> 'f \<Rightarrow> int \<Rightarrow> bool \<Rightarrow> 'img"
  rect_isEmpty :: "'rect \<Rightarrow> bool"
  cropImage :: "('img, 'rect) DkImageContainer \<Rightarrow> 'rect \<Rightarrow> ('img, 'rect) DkImageContainer"
  f_one :: "'f"
  f_eq1 :: "'f \<Rightarrow> bool"
  f_lt1 :: "'f \<Rightarrow> bool"
  f_gt1 :: "'f \<Rightarrow> bool"
  f_div_int :: "'f \<Rightarrow> int \<Rightarrow> 'f"
  f_mul_int :: "'f \<Rightarrow> int \<Rightarrow> 'f"
  f_times100 :: "'f \<Rightarrow> 'f"
  f_qRound :: "'f \<Rightarrow> int"
  f_show :: "'f \<Rightarrow> string"

text \<open>
  Modelled from the spec: \<^verbatim>\<open>DkImageContainer::setImage\<close>, which is not in the file.
  The image of the container is replaced in place; the edit history is not modelled.
\<close>

definition setImage ::
  "('img, 'rect) DkImageContainer \<Rightarrow> 'img \<Rightarrow> ('img, 'rect) DkImageContainer" where
  "setImage container img = container\<lparr>c_image := img\<rparr>"

subsection \<open>DkAbstractBatch\<close>

text \<open>
  A step of the chain, as \<^verbatim>\<open>DkBatchProcess::process\<close> sees it: its name and its
  three-argument \<^verbatim>\<open>compute\<close>, which reads and updates the container and the log and
  returns the batch infos it produced.
\<close>

text \<open>A batch info is opaque to the engine, which only collects them.\<close>

type_synonym DkBatchInfo = string

record ('img, 'rect) DkAbstractBatch =
  batch_name :: string
  batch_compute ::
    "('img, 'rect) DkImageContainer \<Rightarrow> QStringList \<Rightarrow>
       bool \<times> ('img, 'rect) DkImageContainer \<times> QStringList \<times> DkBatchInfo list"

text \<open>\<^verbatim>\<open>DkAbstractBatch::compute(container, logStrings)\<close>, lines 70-80: the generic
  wrapper around a \<^verbatim>\<open>compute(QImage&, QStringList&)\<close>.\<close>

definition DkAbstractBatch_compute ::
  "('img \<Rightarrow> QStringList \<Rightarrow> bool \<times> 'img \<times> QStringList) \<Rightarrow>
     ('img, 'rect) DkImageContainer \<Rightarrow> QStringList \<Rightarrow>
     bool \<times> ('img, 'rect) DkImageContainer \<times> QStringList" where
  "DkAbstractBatch_compute compute_img container logStrings =
     (case compute_img (c_image container) logStrings of
        (isOk, img, logStrings') \<Rightarrow>
          (isOk, if isOk then setImage container img else container, logStrings'))"

subsection \<open>DkResizeBatch\<close>

text \<open>
  Modelled from the spec: the enumerations of modes and policies, whose declarations
  are not in the file. Any mode that is none of default, long side, short side and
  height takes the path of \<open>mode_width\<close>.
\<close>

datatype resize_mode = mode_default | mode_long_side | mode_short_side | mode_width | mode_height

datatype resize_prop = prop_default | prop_decrease_only | prop_increase_only

record 'f DkResizeBatch =
  mScaleFactor :: 'f
  mMode :: resize_mode
  mProperty :: resize_prop
  mIplMethod :: int
  mCorrectGamma :: bool

definition DkResizeBatch_name :: string where
  "DkResizeBatch_name = ''[Resize Batch]''"

text \<open>The first part of \<^verbatim>\<open>prepareProperties\<close>, lines 149-166: the size with the side
  asked for as its width.\<close>

definition normalizedSize :: "'f DkResizeBatch \<Rightarrow> QSize \<Rightarrow> QSize" where
  "normalizedSize p imgSize =
     (if mMode p = mode_long_side then
        (if sz_width imgSize < sz_height imgSize then QSize_transpose imgSize else imgSize)
      else if mMode p = mode_short_side then
        (if sz_width imgSize > sz_height imgSize then QSize_transpose imgSize else imgSize)
      else if mMode p = mode_height then QSize_transpose imgSize
      else imgSize)"

text \<open>Line 168: \<^verbatim>\<open>sf = this->mScaleFactor/normalizedSize.width()\<close>.\<close>

definition computed_sf :: "('img, 'rect, 'f) extern \<Rightarrow> 'f DkResizeBatch \<Rightarrow> QSize \<Rightarrow> 'f" where
  "computed_sf ext p imgSize = f_div_int ext (mScaleFactor p) (sz_width (normalizedSize p imgSize))"

text \<open>\<^verbatim>\<open>prepareProperties\<close> returns its result with the two reference parameters
  \<^verbatim>\<open>size\<close> and \<^verbatim>\<open>scaleFactor\<close> and the log.\<close>

definition prepareProperties ::
  "('img, 'rect, 'f) extern \<Rightarrow> 'f DkResizeBatch \<Rightarrow> QSize \<Rightarrow> QSize \<Rightarrow> 'f \<Rightarrow> QStringList \<Rightarrow>
     bool \<times> QSize \<times> 'f \<times> QStringList" where
  "prepareProperties ext p imgSize sz scaleFactor logStrings =
     (if mMode p = mode_default then (True, sz, mScaleFactor p, logStrings)
      else
        let nSize = normalizedSize p imgSize;
            sf = computed_sf ext p imgSize
        in
          if f_gt1 ext sf \<and> mProperty p = prop_decrease_only then
            (False, sz, scaleFactor, logStrings @
               [DkResizeBatch_name @
                '' I need to increase the image, but the option is set to decrease only -> skipping.''])
          else if f_lt1 ext sf \<and> mProperty p = prop_increase_only then
            (False, sz, scaleFactor, logStrings @
               [DkResizeBatch_name @
                '' I need to decrease the image, but the option is set to increase only -> skipping.''])
          else if f_eq1 ext sf then
            (False, sz, scaleFactor, logStrings @
               [DkResizeBatch_name @ '' image size matches scale factor -> skipping.''])
          else
            let sz' = \<lparr>sz_width = f_qRound ext (mScaleFactor p),
                         sz_height = f_qRound ext (f_mul_int ext sf (sz_height nSize))\<rparr>
            in (True, if nSize \<noteq> imgSize then QSize_transpose sz' else sz',
                scaleFactor, logStrings))"

definition DkResizeBatch_compute ::
  "('img, 'rect, 'f) extern \<Rightarrow> 'f DkResizeBatch \<Rightarrow> 'img \<Rightarrow> QStringList \<Rightarrow>
     bool \<times> 'img \<times> QStringList" where
  "DkResizeBatch_compute ext p img logStrings =
     (if f_eq1 ext (mScaleFactor p) then
        (True, img, logStrings @ [DkResizeBatch_name @ '' scale factor is 1 -> ignoring''])
      else
        case prepareProperties ext p (img_size ext img) QSize_default (f_one ext) logStrings of
          (ok, sz, sf, logStrings1) \<Rightarrow>
            if ok then
              let tmpImg = resizeImage ext img sz sf (mIplMethod p) (mCorrectGamma p) in
                if isNull ext tmpImg then
                  (False, img, logStrings1 @ [DkResizeBatch_name @ '' could not resize image.''])
                else if mMode p = mode_default then
                  (True, tmpImg, logStrings1 @
                     [DkResizeBatch_name @ '' image resized, scale factor: '' @
                      f_show ext (f_times100 ext (mScaleFactor p)) @ ''%''])
                else
                  (True, tmpImg, logStrings1 @
                     [DkResizeBatch_name @ '' image resized, new side: '' @
                      f_show ext (mScaleFactor p) @ '' px''])
            else
              (True, img, logStrings1 @ [DkResizeBatch_name @ '' no need for resizing.'']))"

text \<open>The resize step as an entry of the chain.\<close>

definition resize_step ::
  "('img, 'rect, 'f) extern \<Rightarrow> 'f DkResizeBatch \<Rightarrow> ('img, 'rect) DkAbstractBatch" where
  "resize_step ext p =
     \<lparr>batch_name = DkResizeBatch_name,
      batch_compute = (\<lambda>container logStrings.
        case DkAbstractBatch_compute (DkResizeBatch_compute ext p) container logStrings of
          (ok, container', logStrings') \<Rightarrow> (ok, container', logStrings', []))\<rparr>"

subsection \<open>DkBatchTransform\<close>

record DkBatchTransform =
  mAngle :: int
  mHorizontalFlip :: bool
  mVerticalFlip :: bool
  mCropFromMetadata :: bool

definition DkBatchTransform_name :: string where
  "DkBatchTransform_name = ''[Transform Batch]''"

definition DkBatchTransform_isActive :: "DkBatchTransform \<Rightarrow> bool" where
  "DkBatchTransform_isActive p =
     (mHorizontalFlip p \<or> mVerticalFlip p \<or> mAngle p \<noteq> 0 \<or> mCropFromMetadata p)"

text \<open>
  \<^verbatim>\<open>DkBatchTransform::compute\<close>, lines 214-253. The only call that changes the
  container is \<^verbatim>\<open>container->cropImage\<close>. \<^verbatim>\<open>img\<close> and \<^verbatim>\<open>tmpImg\<close> are local
  values (\<^verbatim>\<open>container->image()\<close> returns a \<^verbatim>\<open>QImage\<close> by value), and the
  assignment \<^verbatim>\<open>img = tmpImg\<close> of line 240 writes the local: the container
  returned is the one left by the crop.
\<close>

definition DkBatchTransform_compute ::
  "('img, 'rect, 'f) extern \<Rightarrow> DkBatchTransform \<Rightarrow> ('img, 'rect) DkImageContainer \<Rightarrow>
     QStringList \<Rightarrow> bool \<times> ('img, 'rect) DkImageContainer \<times> QStringList" where
  "DkBatchTransform_compute ext p container logStrings =
     (if \<not> DkBatchTransform_isActive p then
        (True, container, logStrings @ [DkBatchTransform_name @ '' inactive -> skipping''])
      else
        let rect = c_cropRect container;
            container1 =
              (if mCropFromMetadata p \<and> \<not> rect_isEmpty ext rect
               then cropImage ext container rect else container);
            img = c_image container1;
            tmpImg = (if mAngle p \<noteq> 0 then transformed ext img (mAngle p) else img);
            tmpImg' = mirrored ext tmpImg (mHorizontalFlip p) (mVerticalFlip p)
        in
          if \<not> isNull ext tmpImg' then
            (True, container1, logStrings @
               [if rect_isEmpty ext rect \<and> mCropFromMetadata p
                then DkBatchTransform_name @ '' image transformed.''
                else DkBatchTransform_name @ '' image transformed and cropped.''])
          else
            (False, container1, logStrings @
               [DkBatchTransform_name @ '' error, could not transform image.'']))"

text \<open>The image that lines 230-238 compute from the container left by the crop.\<close>

definition transform_result ::
  "('img, 'rect, 'f) extern \<Rightarrow> DkBatchTransform \<Rightarrow> ('img, 'rect) DkImageContainer \<Rightarrow> 'img" where
  "transform_result ext p container =
     (let rect = c_cropRect container;
          container1 =
            (if mCropFromMetadata p \<and> \<not> rect_isEmpty ext rect
             then cropImage ext container rect else container);
          img = c_image container1;
          tmpImg = (if mAngle p \<noteq> 0 then transformed ext img (mAngle p) else img)
      in mirrored ext tmpImg (mHorizontalFlip p) (mVerticalFlip p))"

definition transform_step ::
  "('img, 'rect, 'f) extern \<Rightarrow> DkBatchTransform \<Rightarrow> ('img, 'rect) DkAbstractBatch" where
  "transform_step ext p =
     \<lparr>batch_name = DkBatchTransform_name,
      batch_compute = (\<lambda>container logStrings.
        case DkBatchTransform_compute ext p container logStrings of
          (ok, container', logStrings') \<Rightarrow> (ok, container', logStrings', []))\<rparr>"

subsection \<open>The file system\<close>

text \<open>
  The file system maps a path to the content of the file, which is what
  \<^verbatim>\<open>loadImage\<close> reads into a container and \<^verbatim>\<open>saveImage\<close> writes from one. Paths are
  compared as strings, as the code compares them.

  The world also keeps a ghost trace of the calls the code makes into the file system
  and into the steps of the chain, each with its outcome. Whether the operating system
  lets a call succeed is a parameter: \<open>permits os t c\<close> for the call \<open>c\<close> made when the
  trace has length \<open>t\<close>, so that any sequence of outcomes is covered.
\<close>

datatype 'c call =
    Rename path path
  | Remove path
  | Copy path path
  | Save path 'c int
  | Load path
  | Compute string 'c 'c

record 'c os =
  permits :: "nat \<Rightarrow> 'c call \<Rightarrow> bool"
  errorString :: "'c call \<Rightarrow> string"
  createUuid :: "nat \<Rightarrow> string"

record 'c world =
  files :: "path \<rightharpoonup> 'c"
  trace :: "('c call \<times> bool) list"

definition record_call :: "'c world \<Rightarrow> 'c call \<Rightarrow> bool \<Rightarrow> 'c world" where
  "record_call w c ok = w\<lparr>trace := trace w @ [(c, ok)]\<rparr>"

text \<open>\<^verbatim>\<open>QFileInfo(p).exists()\<close>; an empty file name never exists.\<close>

definition file_exists :: "'c world \<Rightarrow> path \<Rightarrow> bool" where
  "file_exists w p = (p \<noteq> [] \<and> files w p \<noteq> None)"

text \<open>
  \<^verbatim>\<open>QFile::rename\<close>, \<^verbatim>\<open>QFile::remove\<close> and \<^verbatim>\<open>QFile::copy\<close> as Qt documents
  them: each fails on an empty or missing source, \<^verbatim>\<open>rename\<close> and \<^verbatim>\<open>copy\<close> never
  overwrite an existing target, and each may fail in the operating system.
\<close>

definition QFile_rename :: "'c os \<Rightarrow> path \<Rightarrow> path \<Rightarrow> 'c world \<Rightarrow> bool \<times> 'c world" where
  "QFile_rename os src dst w =
     (let ok = (file_exists w src \<and> dst \<noteq> [] \<and> \<not> file_exists w dst \<and>
                permits os (length (trace w)) (Rename src dst))
      in (ok, record_call
                (if ok then w\<lparr>files := (files w)(src := None, dst := files w src)\<rparr> else w)
                (Rename src dst) ok))"

definition QFile_remove :: "'c os \<Rightarrow> path \<Rightarrow> 'c world \<Rightarrow> bool \<times> 'c world" where
  "QFile_remove os p w =
     (let ok = (file_exists w p \<and> permits os (length (trace w)) (Remove p))
      in (ok, record_call (if ok then w\<lparr>files := (files w)(p := None)\<rparr> else w) (Remove p) ok))"

definition QFile_copy :: "'c os \<Rightarrow> path \<Rightarrow> path \<Rightarrow> 'c world \<Rightarrow> bool \<times> 'c world" where
  "QFile_copy os src dst w =
     (let ok = (file_exists w src \<and> dst \<noteq> [] \<and> \<not> file_exists w dst \<and>
                permits os (length (trace w)) (Copy src dst))
      in (ok, record_call
                (if ok then w\<lparr>files := (files w)(dst := files w src)\<rparr> else w)
                (Copy src dst) ok))"

text \<open>
  Modelled from the spec: \<^verbatim>\<open>DkImageContainer::loadImage\<close> and
  \<^verbatim>\<open>DkImageContainer::saveImage\<close>, which are not in the file. The spec gives them as
  \<^verbatim>\<open>load(path) -> Image | Fail\<close> and \<^verbatim>\<open>save(Image, path, compressionLevel) -> bool\<close>,
  and reads a missing output as a failed save: a save that succeeds writes the
  container to the path, a save that fails writes nothing.
\<close>

definition loadImage :: "'c os \<Rightarrow> path \<Rightarrow> 'c world \<Rightarrow> 'c option \<times> 'c world" where
  "loadImage os p w =
     (let ok = (file_exists w p \<and> permits os (length (trace w)) (Load p))
      in (if ok then files w p else None, record_call w (Load p) ok))"

definition saveImage :: "'c os \<Rightarrow> 'c \<Rightarrow> path \<Rightarrow> int \<Rightarrow> 'c world \<Rightarrow> bool \<times> 'c world" where
  "saveImage os container p compression w =
     (let ok = (p \<noteq> [] \<and> permits os (length (trace w)) (Save p container compression))
      in (ok, record_call (if ok then w\<lparr>files := (files w)(p \<mapsto> container)\<rparr> else w)
                (Save p container compression) ok))"

text \<open>
  The parts of a path that \<^verbatim>\<open>QFileInfo\<close> gives, for the absolute paths of the batch
  items: the suffix follows the last dot of the file name, the base name ends at its
  first dot, the absolute path is the directory.
\<close>

definition QFileInfo_fileName :: "path \<Rightarrow> string" where
  "QFileInfo_fileName p = rev (takeWhile (\<lambda>c. c \<noteq> CHR ''/'') (rev p))"

definition QFileInfo_suffix :: "path \<Rightarrow> string" where
  "QFileInfo_suffix p =
     (let f = QFileInfo_fileName p
      in if CHR ''.'' \<in> set f then rev (takeWhile (\<lambda>c. c \<noteq> CHR ''.'') (rev f)) else [])"

definition QFileInfo_baseName :: "path \<Rightarrow> string" where
  "QFileInfo_baseName p = takeWhile (\<lambda>c. c \<noteq> CHR ''.'') (QFileInfo_fileName p)"

definition QFileInfo_absolutePath :: "path \<Rightarrow> path" where
  "QFileInfo_absolutePath p =
     (let d = rev (drop 1 (dropWhile (\<lambda>c. c \<noteq> CHR ''/'') (rev p)))
      in if d = [] then ''/'' else d)"

text \<open>Lines 610-611: the name of the back-up file, from the uuid drawn.\<close>

definition backupFilePath :: "string \<Rightarrow> path \<Rightarrow> path" where
  "backupFilePath uuid out =
     (let dir = QFileInfo_absolutePath out;
          file = QFileInfo_baseName out @ uuid @ ''.'' @ QFileInfo_suffix out
      in if last dir = CHR ''/'' then dir @ file else dir @ ''/'' @ file)"

fun string_of_nat :: "nat \<Rightarrow> string" where
  "string_of_nat n =
     (if n < 10 then [char_of (48 + n)]
      else string_of_nat (n div 10) @ [char_of (48 + n mod 10)])"

definition QString_number :: "int \<Rightarrow> string" where
  "QString_number i =
     (if i < 0 then ''-'' @ string_of_nat (nat (- i)) else string_of_nat (nat i))"

declare string_of_nat.simps [simp del]

subsection \<open>DkBatchProcess\<close>

text \<open>Modelled from the spec: the two modes of \<^verbatim>\<open>DkBatchConfig\<close>, declared outside the
  file.\<close>

datatype batch_mode = mode_overwrite | mode_skip_existing

text \<open>
  The members of a batch item. A null entry of the chain is \<open>None\<close>. The failure
  counter is the \<^verbatim>\<open>int\<close> of the source; it starts at zero and is only incremented,
  at most once per step and twice more in one \<^verbatim>\<open>compute()\<close>, so it does not wrap.
\<close>

record ('img, 'rect) DkBatchProcess =
  mFilePathIn :: path
  mFilePathOut :: path
  mMode :: batch_mode
  mDeleteOriginal :: bool
  mCompression :: int
  mProcessFunctions :: "('img, 'rect) DkAbstractBatch option list"
  mLogStrings :: QStringList
  mFailure :: int
  mIsProcessed :: bool
  mBackupFilePath :: path
  mInfos :: "DkBatchInfo list"

text \<open>
  Modelled from the spec: the initial values of the members that the constructor does
  not set, which are declared outside the file: an empty chain and log, a counter of
  zero, not processed, no back-up path. Lines 411-416 set the two paths and the mode.
\<close>

definition DkBatchProcess_new :: "path \<Rightarrow> path \<Rightarrow> ('img, 'rect) DkBatchProcess" where
  "DkBatchProcess_new filePathIn filePathOut =
     \<lparr>mFilePathIn = filePathIn, mFilePathOut = filePathOut, mMode = mode_skip_existing,
      mDeleteOriginal = False, mCompression = - 1, mProcessFunctions = [],
      mLogStrings = [], mFailure = 0, mIsProcessed = False, mBackupFilePath = [],
      mInfos = []\<rparr>"

definition hasFailed :: "('img, 'rect) DkBatchProcess \<Rightarrow> bool" where
  "hasFailed it = (mFailure it \<noteq> 0)"

definition wasProcessed :: "('img, 'rect) DkBatchProcess \<Rightarrow> bool" where
  "wasProcessed it = mIsProcessed it"

definition append_log ::
  "QStringList \<Rightarrow> ('img, 'rect) DkBatchProcess \<Rightarrow> ('img, 'rect) DkBatchProcess" where
  "append_log ls it = it\<lparr>mLogStrings := mLogStrings it @ ls\<rparr>"

definition inc_failure :: "('img, 'rect) DkBatchProcess \<Rightarrow> ('img, 'rect) DkBatchProcess" where
  "inc_failure it = it\<lparr>mFailure := mFailure it + 1\<rparr>"

type_synonym ('img, 'rect) fs = "('img, 'rect) DkImageContainer world"
type_synonym ('img, 'rect) sys = "('img, 'rect) DkImageContainer os"

definition renameFile ::
  "('img, 'rect) sys \<Rightarrow> ('img, 'rect) DkBatchProcess \<Rightarrow> ('img, 'rect) fs \<Rightarrow>
     bool \<times> ('img, 'rect) DkBatchProcess \<times> ('img, 'rect) fs" where
  "renameFile os it w =
     (if file_exists w (mFilePathOut it) then
        (False,
         append_log [''Error: could not rename file, the target file exists already.''] it, w)
      else
        case QFile_rename os (mFilePathIn it) (mFilePathOut it) w of
          (ok, w1) \<Rightarrow>
            if \<not> ok then
              (False,
               append_log [''Error: could not rename file'',
                           errorString os (Rename (mFilePathIn it) (mFilePathOut it))] it, w1)
            else
              (True,
               append_log [''Renaming: '' @ mFilePathIn it @ '' -> '' @ mFilePathOut it] it, w1))"

definition prepareDeleteExisting ::
  "('img, 'rect) sys \<Rightarrow> ('img, 'rect) DkBatchProcess \<Rightarrow> ('img, 'rect) fs \<Rightarrow>
     bool \<times> ('img, 'rect) DkBatchProcess \<times> ('img, 'rect) fs" where
  "prepareDeleteExisting os it w =
     (if file_exists w (mFilePathOut it) \<and> mMode it = mode_overwrite then
        let buFile = backupFilePath (createUuid os (length (trace w))) (mFilePathOut it) in
          if file_exists w buFile then
            (False,
             append_log [''Error: back-up ('' @ buFile @ '') file already exists''] it, w)
          else
            case QFile_rename os (mFilePathOut it) buFile w of
              (ok, w1) \<Rightarrow>
                if \<not> ok then
                  (False,
                   append_log [''Error: could not rename existing file to '' @ buFile,
                               errorString os (Rename (mFilePathOut it) buFile)] it, w1)
                else (True, it\<lparr>mBackupFilePath := buFile\<rparr>, w1)
      else (True, it, w))"

definition deleteOrRestoreExisting ::
  "('img, 'rect) sys \<Rightarrow> ('img, 'rect) DkBatchProcess \<Rightarrow> ('img, 'rect) fs \<Rightarrow>
     bool \<times> ('img, 'rect) DkBatchProcess \<times> ('img, 'rect) fs" where
  "deleteOrRestoreExisting os it w =
     (if file_exists w (mFilePathOut it) \<and> mBackupFilePath it \<noteq> [] \<and>
         file_exists w (mBackupFilePath it) then
        case QFile_remove os (mBackupFilePath it) w of
          (ok, w1) \<Rightarrow>
            if \<not> ok then
              (False,
               append_log [''Error: could not delete existing file'',
                           errorString os (Remove (mBackupFilePath it))] it, w1)
            else (True, it, w1)
      else if \<not> file_exists w (mFilePathOut it) then
        case QFile_rename os (mBackupFilePath it) (mFilePathOut it) w of
          (ok, w1) \<Rightarrow>
            if \<not> ok then
              (False,
               append_log
                 [''Ui - a lot of things went wrong sorry, your original file can be found here: ''
                    @ mBackupFilePath it,
                  errorString os (Rename (mBackupFilePath it) (mFilePathOut it))] it, w1)
            else
              (True,
               append_log [''I could not save to '' @ mFilePathOut it @
                           '' so I restored the original file.''] it, w1)
      else (True, it, w))"

definition copyFile ::
  "('img, 'rect) sys \<Rightarrow> ('img, 'rect) DkBatchProcess \<Rightarrow> ('img, 'rect) fs \<Rightarrow>
     bool \<times> ('img, 'rect) DkBatchProcess \<times> ('img, 'rect) fs" where
  "copyFile os it w =
     (case (if file_exists w (mFilePathOut it) \<and> mMode it = mode_overwrite
            then deleteOrRestoreExisting os it w else (True, it, w)) of
        (ok0, it0, w0) \<Rightarrow>
          if \<not> ok0 then (False, it0, w0)
          else
            case QFile_copy os (mFilePathIn it0) (mFilePathOut it0) w0 of
              (ok, w1) \<Rightarrow>
                if \<not> ok then
                  (False,
                   append_log [''Error: could not copy file'',
                               ''Input: '' @ mFilePathIn it0,
                               ''Output: '' @ mFilePathOut it0,
                               errorString os (Copy (mFilePathIn it0) (mFilePathOut it0))] it0,
                   w1)
                else
                  (True,
                   append_log [''Copying: '' @ mFilePathIn it0 @ '' -> '' @ mFilePathOut it0] it0,
                   w1))"

definition deleteOriginalFile ::
  "('img, 'rect) sys \<Rightarrow> ('img, 'rect) DkBatchProcess \<Rightarrow> ('img, 'rect) fs \<Rightarrow>
     bool \<times> ('img, 'rect) DkBatchProcess \<times> ('img, 'rect) fs" where
  "deleteOriginalFile os it w =
     (if mFilePathIn it = mFilePathOut it then (True, it, w)
      else if mFailure it = 0 \<and> mDeleteOriginal it then
        case QFile_remove os (mFilePathIn it) w of
          (ok, w1) \<Rightarrow>
            if ok then (True, append_log [mFilePathIn it @ '' deleted.''] it, w1)
            else (False, append_log [''I could not delete '' @ mFilePathIn it] (inc_failure it), w1)
      else if mFailure it \<noteq> 0 then
        (True,
         append_log [''I did not delete the original because I detected '' @
                     QString_number (mFailure it) @ '' failure(s).''] it, w)
      else (True, it, w))"

text \<open>
  The loop of \<^verbatim>\<open>process()\<close>, lines 524-538, over the entries left of the chain. A
  step reads and updates the container and the log; the call is recorded in the trace
  with the container it was given, the container it left and its result.
\<close>

fun process_loop ::
  "('img, 'rect) DkAbstractBatch option list \<Rightarrow> ('img, 'rect) DkImageContainer \<Rightarrow>
     ('img, 'rect) DkBatchProcess \<Rightarrow> ('img, 'rect) fs \<Rightarrow>
     ('img, 'rect) DkImageContainer \<times> ('img, 'rect) DkBatchProcess \<times> ('img, 'rect) fs" where
  "process_loop [] imgC it w = (imgC, it, w)"
| "process_loop (None # batches) imgC it w =
     process_loop batches imgC (append_log [''Error: cannot process a NULL function.''] it) w"
| "process_loop (Some batch # batches) imgC it w =
     (case batch_compute batch imgC (mLogStrings it) of
        (ok, imgC', logStrings', cInfos) \<Rightarrow>
          let it1 = it\<lparr>mLogStrings := logStrings'\<rparr>;
              it2 = (if \<not> ok then inc_failure (append_log [batch_name batch @ '' failed''] it1)
                     else it1);
              it3 = it2\<lparr>mInfos := mInfos it2 @ cInfos\<rparr>
          in process_loop batches imgC' it3
               (record_call w (Compute (batch_name batch) imgC imgC') ok))"

text \<open>The rest of \<^verbatim>\<open>process()\<close>, lines 540-559: back-up, save, delete or restore.\<close>

definition process_save ::
  "('img, 'rect) sys \<Rightarrow> ('img, 'rect) DkImageContainer \<Rightarrow>
     ('img, 'rect) DkBatchProcess \<Rightarrow> ('img, 'rect) fs \<Rightarrow>
     bool \<times> ('img, 'rect) DkBatchProcess \<times> ('img, 'rect) fs" where
  "process_save os imgC it w =
     (case prepareDeleteExisting os it w of
        (ok, it1, w1) \<Rightarrow>
          if \<not> ok then (False, inc_failure it1, w1)
          else
            case saveImage os imgC (mFilePathOut it1) (mCompression it1) w1 of
              (saved, w2) \<Rightarrow>
                let it2 = (if saved then append_log [mFilePathOut it1 @ '' saved...''] it1
                           else inc_failure
                                  (append_log [''Could not save: '' @ mFilePathOut it1] it1))
                in case deleteOrRestoreExisting os it2 w2 of
                     (ok2, it3, w3) \<Rightarrow>
                       if \<not> ok2 then (False, inc_failure it3, w3) else (True, it3, w3))"

definition process ::
  "('img, 'rect, 'f) extern \<Rightarrow> ('img, 'rect) sys \<Rightarrow> ('img, 'rect) DkBatchProcess \<Rightarrow>
     ('img, 'rect) fs \<Rightarrow> bool \<times> ('img, 'rect) DkBatchProcess \<times> ('img, 'rect) fs" where
  "process ext os it w =
     (let it0 = append_log [''processing '' @ mFilePathIn it] it in
        case loadImage os (mFilePathIn it0) w of
          (loaded, w0) \<Rightarrow>
            if loaded = None \<or> isNull ext (c_image (the loaded)) then
              (False, inc_failure (append_log [''Error while loading...''] it0), w0)
            else
              case process_loop (mProcessFunctions it0) (the loaded) it0 w0 of
                (imgC, it1, w1) \<Rightarrow> process_save os imgC it1 w1)"

definition DkBatchProcess_compute ::
  "('img, 'rect, 'f) extern \<Rightarrow> ('img, 'rect) sys \<Rightarrow> ('img, 'rect) DkBatchProcess \<Rightarrow>
     ('img, 'rect) fs \<Rightarrow> bool \<times> ('img, 'rect) DkBatchProcess \<times> ('img, 'rect) fs" where
  "DkBatchProcess_compute ext os it0 w =
     (let it = it0\<lparr>mIsProcessed := True\<rparr> in
        if file_exists w (mFilePathOut it) \<and> mMode it = mode_skip_existing then
          (let it' = inc_failure
                 (append_log
                    [mFilePathOut it @
                     '' already exists -> skipping (check 'overwrite' if you want to overwrite the file)'']
                    it)
           in (mFailure it' = 0, it', w))
        else if \<not> file_exists w (mFilePathIn it) then
          (let it' = inc_failure
                 (append_log [''Error: input file does not exist'',
                              ''Input: '' @ mFilePathIn it] it)
           in (mFailure it' = 0, it', w))
        else if mFilePathIn it = mFilePathOut it \<and> mProcessFunctions it = [] then
          (let it' = inc_failure (append_log [''Skipping: nothing to do here.''] it)
           in (mFailure it' = 0, it', w))
        else if mProcessFunctions it = [] \<and> mFilePathIn it = mFilePathOut it \<and>
                QFileInfo_suffix (mFilePathIn it) = QFileInfo_suffix (mFilePathOut it) then
          (case renameFile os it w of
             (ok, it1, w1) \<Rightarrow>
               let it' = (if \<not> ok then inc_failure it1 else it1)
               in (mFailure it' = 0, it', w1))
        else if mProcessFunctions it = [] \<and>
                QFileInfo_suffix (mFilePathIn it) = QFileInfo_suffix (mFilePathOut it) then
          (case copyFile os it w of
             (ok, it1, w1) \<Rightarrow>
               if \<not> ok then (let it' = inc_failure it1 in (mFailure it' = 0, it', w1))
               else
                 case deleteOriginalFile os it1 w1 of
                   (_, it', w2) \<Rightarrow> (mFailure it' = 0, it', w2))
        else
          case process ext os it w of
            (_, it', w1) \<Rightarrow> (mFailure it' = 0, it', w1))"

subsection \<open>DkBatchProcessing\<close>

text \<open>Modelled from the spec: the three classifications of an item, declared outside the
  file.\<close>

datatype batch_result = batch_item_failed | batch_item_succeeded | batch_item_not_computed

record ('img, 'rect) DkBatchProcessing =
  mBatchItems :: "('img, 'rect) DkBatchProcess list"
  mResList :: "batch_result list"

text \<open>
  The second loop of \<^verbatim>\<open>getCurrentResults()\<close>, lines 833-840, from index \<open>idx\<close>.
  \<^verbatim>\<open>mBatchItems.at(idx)\<close> past the end of the items is no result (\<open>None\<close>).
\<close>

function results_loop ::
  "nat \<Rightarrow> ('img, 'rect) DkBatchProcess list \<Rightarrow> batch_result list \<Rightarrow> batch_result list option"
  where
  "results_loop idx items res =
     (if idx < length res then
        (if res ! idx \<noteq> batch_item_not_computed then results_loop (Suc idx) items res
         else if idx < length items then
           results_loop (Suc idx) items
             (if wasProcessed (items ! idx)
              then res[idx := (if hasFailed (items ! idx) then batch_item_failed
                               else batch_item_succeeded)]
              else res)
         else None)
      else Some res)"
  by pat_completeness auto
termination
  by (relation "measure (\<lambda>(idx, items, res). length res - idx)") auto

declare results_loop.simps [simp del]

definition getCurrentResults ::
  "('img, 'rect) DkBatchProcessing \<Rightarrow> (batch_result list \<times> ('img, 'rect) DkBatchProcessing) option"
  where
  "getCurrentResults r =
     (let res0 = (if mResList r = []
                  then replicate (length (mBatchItems r)) batch_item_not_computed
                  else mResList r)
      in case results_loop 0 (mBatchItems r) res0 of
           None \<Rightarrow> None
         | Some res \<Rightarrow> Some (res, r\<lparr>mResList := res\<rparr>))"

text \<open>
  A sequence of calls of \<^verbatim>\<open>getCurrentResults()\<close>: between two calls the workers
  change the items, so each call sees the items of its own moment.
\<close>

fun poll ::
  "('img, 'rect) DkBatchProcessing \<Rightarrow> ('img, 'rect) DkBatchProcess list list \<Rightarrow>
     ('img, 'rect) DkBatchProcessing option" where
  "poll r [] = Some r"
| "poll r (items # later) =
     (case getCurrentResults (r\<lparr>mBatchItems := items\<rparr>) of
        None \<Rightarrow> None
      | Some (res, r') \<Rightarrow> poll r' later)"

text \<open>Lines 838-839: what an entry that is not computed yet becomes.\<close>

definition classify :: "('img, 'rect) DkBatchProcess \<Rightarrow> batch_result" where
  "classify item =
     (if wasProcessed item
      then (if hasFailed item then batch_item_failed else batch_item_succeeded)
      else batch_item_not_computed)"

subsection \<open>Reading the trace\<close>

text \<open>
  What the properties say about a trace: the name of the step a call went to, whether
  a list of step calls hands the container on from each call to the next, the steps of
  a chain that are set, the calls made between two worlds and the number of calls that
  failed.
\<close>

fun step_name :: "'c call \<Rightarrow> string option" where
  "step_name (Compute n c c') = Some n"
| "step_name (Rename a b) = None"
| "step_name (Remove a) = None"
| "step_name (Copy a b) = None"
| "step_name (Save a c k) = None"
| "step_name (Load a) = None"

fun linked :: "'c \<Rightarrow> ('c call \<times> bool) list \<Rightarrow> 'c \<Rightarrow> bool" where
  "linked c [] c' = (c = c')"
| "linked c ((Compute n cin cout, ok) # es) c' = (cin = c \<and> linked cout es c')"
| "linked c ((Rename a b, ok) # es) c' = False"
| "linked c ((Remove a, ok) # es) c' = False"
| "linked c ((Copy a b, ok) # es) c' = False"
| "linked c ((Save a x k, ok) # es) c' = False"
| "linked c ((Load a, ok) # es) c' = False"

fun configured :: "'a option list \<Rightarrow> 'a list" where
  "configured [] = []"
| "configured (None # bs) = configured bs"
| "configured (Some b # bs) = b # configured bs"

definition new_calls :: "'c world \<Rightarrow> 'c world \<Rightarrow> ('c call \<times> bool) list" where
  "new_calls w w' = drop (length (trace w)) (trace w')"

definition failures :: "('c call \<times> bool) list \<Rightarrow> int" where
  "failures evs = int (length (filter (\<lambda>e. \<not> snd e) evs))"

subsection \<open>Concrete instances\<close>

text \<open>
  An image library, an operating system and a file system on which the definitions
  evaluate: images are strings that record what was done to them, floats are reals.
\<close>

definition example_ext :: "(string, nat list, real) extern" where
  "example_ext =
     \<lparr>isNull = (\<lambda>img. img = []),
      img_size = (\<lambda>img. \<lparr>sz_width = 400, sz_height = 200\<rparr>),
      transformed = (\<lambda>img angle. img @ ''+rotated''),
      mirrored = (\<lambda>img h v. if h \<or> v then img @ ''+mirrored'' else img),
      resizeImage = (\<lambda>img sz sf ipl gamma. img @ ''+resized''),
      rect_isEmpty = (\<lambda>rect. rect = []),
      cropImage = (\<lambda>container rect. container\<lparr>c_image := c_image container @ ''+cropped''\<rparr>),
      f_one = 1,
      f_eq1 = (\<lambda>x. x = 1),
      f_lt1 = (\<lambda>x. x < 1),
      f_gt1 = (\<lambda>x. 1 < x),
      f_div_int = (\<lambda>x n. x / real_of_int n),
      f_mul_int = (\<lambda>x n. x * real_of_int n),
      f_times100 = (\<lambda>x. x * 100),
      f_qRound = (\<lambda>x. \<lfloor>x + 1 / 2\<rfloor>),
      f_show = (\<lambda>x. ''<float>'')\<rparr>"

definition example_os :: "(string, nat list) sys" where
  "example_os =
     \<lparr>permits = (\<lambda>t c. True), errorString = (\<lambda>c. ''Unknown error''),
      createUuid = (\<lambda>t. ''{uuid}'')\<rparr>"

definition example_fs :: "(string, nat list) fs" where
  "example_fs =
     \<lparr>files = [''/in/a.jpg'' \<mapsto> \<lparr>c_image = ''pixels'', c_cropRect = []\<rparr>,
               ''/out/a.jpg'' \<mapsto> \<lparr>c_image = ''old'', c_cropRect = []\<rparr>],
      trace = []\<rparr>"

definition example_same_path :: "(string, nat list) DkBatchProcess" where
  "example_same_path = (DkBatchProcess_new ''/in/a.jpg'' ''/in/a.jpg'')\<lparr>mMode := mode_overwrite\<rparr>"

definition example_resize :: "real \<Rightarrow> resize_mode \<Rightarrow> resize_prop \<Rightarrow> real DkResizeBatch" where
  "example_resize sf m prop =
     \<lparr>mScaleFactor = sf, mMode = m, mProperty = prop, mIplMethod = 0, mCorrectGamma = False\<rparr>"

definition example_os_denying ::
  "(string, nat list) DkImageContainer call list \<Rightarrow> (string, nat list) sys" where
  "example_os_denying denied = example_os\<lparr>permits := (\<lambda>t c. c \<notin> set denied)\<rparr>"

definition example_overwrite :: "(string, nat list) DkBatchProcess" where
  "example_overwrite =
     (DkBatchProcess_new ''/in/a.jpg'' ''/out/a.jpg'')\<lparr>mMode := mode_overwrite\<rparr>"

definition example_new :: "(string, nat list) DkImageContainer" where
  "example_new = \<lparr>c_image = ''new'', c_cropRect = []\<rparr>"

definition example_old :: "(string, nat list) DkImageContainer" where
  "example_old = \<lparr>c_image = ''old'', c_cropRect = []\<rparr>"

definition example_pixels :: "(string, nat list) DkImageContainer" where
  "example_pixels = \<lparr>c_image = ''pixels'', c_cropRect = []\<rparr>"

definition example_failing_step :: "(string, nat list) DkAbstractBatch" where
  "example_failing_step =
     \<lparr>batch_name = ''[Failing Batch]'',
      batch_compute = (\<lambda>container logStrings.
        (False, container, logStrings @ [''[Failing Batch] error''], []))\<rparr>"

definition example_chain :: "(string, nat list) DkBatchProcess" where
  "example_chain =
     example_overwrite\<lparr>mProcessFunctions :=
       [Some example_failing_step,
        Some (resize_step example_ext (example_resize (1 / 2) mode_default prop_default))]\<rparr>"

definition example_nulls :: "(string, nat list) DkBatchProcess" where
  "example_nulls = example_overwrite\<lparr>mProcessFunctions := [None, None]\<rparr>"

definition example_fs_collision :: "(string, nat list) fs" where
  "example_fs_collision =
     example_fs\<lparr>files := (files example_fs)(''/out/a{uuid}.jpg'' \<mapsto> example_old)\<rparr>"

definition example_copy :: "(string, nat list) DkBatchProcess" where
  "example_copy = (DkBatchProcess_new ''/in/a.jpg'' ''/out/b.jpg'')\<lparr>mDeleteOriginal := True\<rparr>"

definition example_state :: "bool \<Rightarrow> int \<Rightarrow> (string, nat list) DkBatchProcess" where
  "example_state processed n =
     (DkBatchProcess_new ''/in/a.jpg'' ''/out/a.jpg'')
       \<lparr>mFailure := n, mIsProcessed := processed\<rparr>"

definition example_runner :: "(string, nat list) DkBatchProcessing" where
  "example_runner =
     \<lparr>mBatchItems = [example_state True 0, example_state False 0],
      mResList = [batch_item_succeeded, batch_item_not_computed]\<rparr>"

definition example_snaps :: "(string, nat list) DkBatchProcess list list" where
  "example_snaps =
     [[example_state True 1, example_state False 0],
      [example_state True 1, example_state True 2]]"

definition example_transform :: DkBatchTransform where
  "example_transform =
     \<lparr>mAngle = 90, mHorizontalFlip = False, mVerticalFlip = False, mCropFromMetadata = True\<rparr>"

definition example_with_crop :: "(string, nat list) DkImageContainer" where
  "example_with_crop = \<lparr>c_image = ''pixels'', c_cropRect = [0, 0, 10, 10]\<rparr>"

definition example_in_place :: "(string, nat list) DkBatchProcess" where
  "example_in_place =
     (DkBatchProcess_new ''/in/a.jpg'' ''/in/a.jpg'')
       \<lparr>mMode := mode_overwrite,
        mProcessFunctions :=
          [Some example_failing_step,
           Some (resize_step example_ext (example_resize (1 / 2) mode_default prop_default))]\<rparr>"

section \<open>Properties\<close>

subsection \<open>The skip of an existing output\<close>

text \<open>
  C1. When the output file exists and the mode is skip-existing, \<^verbatim>\<open>compute()\<close>
  appends one log line, increments the failure counter once and returns: the file
  system and the trace of calls are as before, so nothing is written. Afterwards
  \<^verbatim>\<open>hasFailed()\<close> and \<^verbatim>\<open>wasProcessed()\<close> are true. The counter of an item is never
  negative.
\<close>

theorem skip_existing:
  assumes "file_exists w (mFilePathOut it)" and "mMode it = mode_skip_existing"
    and "0 \<le> mFailure it"
  shows "DkBatchProcess_compute ext os it w =
           (False,
            it\<lparr>mIsProcessed := True,
               mLogStrings := mLogStrings it @
                 [mFilePathOut it @
                  '' already exists -> skipping (check 'overwrite' if you want to overwrite the file)''],
               mFailure := mFailure it + 1\<rparr>,
            w) \<and>
         hasFailed (fst (snd (DkBatchProcess_compute ext os it w))) \<and>
         wasProcessed (fst (snd (DkBatchProcess_compute ext os it w)))"
  using assms
  by (simp add: DkBatchProcess_compute_def Let_def append_log_def inc_failure_def
      hasFailed_def wasProcessed_def)

theorem skip_existing_witness:
  "DkBatchProcess_compute example_ext example_os
     (DkBatchProcess_new ''/in/a.jpg'' ''/out/a.jpg'') example_fs =
   (False,
    (DkBatchProcess_new ''/in/a.jpg'' ''/out/a.jpg'')
      \<lparr>mIsProcessed := True,
       mLogStrings :=
         [''/out/a.jpg already exists -> skipping (check 'overwrite' if you want to overwrite the file)''],
       mFailure := 1\<rparr>,
    example_fs)"
  using skip_existing [of example_fs "DkBatchProcess_new ''/in/a.jpg'' ''/out/a.jpg''"
      example_ext example_os]
  by (simp add: DkBatchProcess_new_def example_fs_def file_exists_def)

subsection \<open>The result of compute()\<close>

text \<open>
  C8. \<^verbatim>\<open>compute()\<close> returns true exactly when the failure counter is zero as it
  returns: its result is the negation of \<^verbatim>\<open>hasFailed()\<close> right afterwards.
\<close>

theorem compute_result:
  "fst (DkBatchProcess_compute ext os it w) =
     (\<not> hasFailed (fst (snd (DkBatchProcess_compute ext os it w))))"
  by (simp add: DkBatchProcess_compute_def Let_def hasFailed_def split: prod.splits)

subsection \<open>Equal paths and an empty chain\<close>

text \<open>
  C4, as the code behaves. The guard of line 481 comes before the rename branch of
  line 488, whose condition it covers: an item with an empty chain and equal input and
  output paths never reaches \<^verbatim>\<open>renameFile()\<close>. At the item below, which has equal
  extensions, an existing input and overwrite mode, no call into the file system is
  made.
\<close>

theorem rename_counterexample:
  "mProcessFunctions example_same_path = [] \<and>
   mFilePathIn example_same_path = mFilePathOut example_same_path \<and>
   QFileInfo_suffix (mFilePathIn example_same_path) =
     QFileInfo_suffix (mFilePathOut example_same_path) \<and>
   file_exists example_fs (mFilePathIn example_same_path) \<and>
   mMode example_same_path = mode_overwrite \<and>
   trace (snd (snd (DkBatchProcess_compute example_ext example_os example_same_path
                      example_fs))) = []"
  by (simp add: example_same_path_def DkBatchProcess_new_def example_fs_def file_exists_def
      DkBatchProcess_compute_def Let_def append_log_def inc_failure_def)

text \<open>
  C4, amended. For every item with equal input and output paths and no steps
  configured, whatever the extensions, \<^verbatim>\<open>compute()\<close> is a no-op on the file system:
  it makes no call into it, appends the log lines of the guard that applies, increments
  the failure counter exactly once and returns.
\<close>

theorem same_path_no_steps:
  assumes "mProcessFunctions it = []" and "mFilePathIn it = mFilePathOut it"
  shows "DkBatchProcess_compute ext os it w =
           (mFailure it + 1 = 0,
            it\<lparr>mIsProcessed := True,
               mLogStrings := mLogStrings it @
                 (if file_exists w (mFilePathOut it) \<and> mMode it = mode_skip_existing then
                    [mFilePathOut it @
                     '' already exists -> skipping (check 'overwrite' if you want to overwrite the file)'']
                  else if \<not> file_exists w (mFilePathIn it) then
                    [''Error: input file does not exist'', ''Input: '' @ mFilePathIn it]
                  else [''Skipping: nothing to do here.'']),
               mFailure := mFailure it + 1\<rparr>,
            w)"
  using assms
  by (simp add: DkBatchProcess_compute_def Let_def append_log_def inc_failure_def)

theorem same_path_no_steps_witness:
  "DkBatchProcess_compute example_ext example_os example_same_path example_fs =
     (False,
      example_same_path\<lparr>mIsProcessed := True,
        mLogStrings := [''Skipping: nothing to do here.''], mFailure := 1\<rparr>,
      example_fs)"
  using same_path_no_steps [of example_same_path example_ext example_os example_fs]
  by (simp add: example_same_path_def DkBatchProcess_new_def example_fs_def file_exists_def)

subsection \<open>The resize step\<close>

text \<open>
  C6, as the code behaves. In the default mode \<^verbatim>\<open>prepareProperties()\<close> returns the
  configured factor before it looks at the policy. The step below is in the default
  mode with the policy increase-only; its configured factor is one half, and the
  quotient of line 168 would be below 1 as well. It resizes the image.
\<close>

theorem resize_policy_counterexample:
  "DkResizeBatch.mMode (example_resize (1 / 2) mode_default prop_increase_only) = mode_default \<and>
   mProperty (example_resize (1 / 2) mode_default prop_increase_only) = prop_increase_only \<and>
   f_lt1 example_ext (mScaleFactor (example_resize (1 / 2) mode_default prop_increase_only)) \<and>
   f_lt1 example_ext
     (computed_sf example_ext (example_resize (1 / 2) mode_default prop_increase_only)
        (img_size example_ext ''pixels'')) \<and>
   DkResizeBatch_compute example_ext (example_resize (1 / 2) mode_default prop_increase_only)
     ''pixels'' [] =
     (True, ''pixels+resized'', [''[Resize Batch] image resized, scale factor: <float>%''])"
  by (simp add: example_ext_def example_resize_def computed_sf_def normalizedSize_def
      DkResizeBatch_compute_def prepareProperties_def DkResizeBatch_name_def)

text \<open>
  C6, amended. A configured scale factor of exactly 1 makes the resize step a success
  that leaves the image as it is, in every mode. In every mode but the default one, a
  computed scale factor (line 168) below 1 under increase-only, and one above 1 under
  decrease-only, make the step a success that leaves the image as it is. In the
  default mode the configured factor is applied whatever the policy: when it is not 1,
  the step is the call of \<^verbatim>\<open>resizeImage\<close> with that factor, a failure when the
  result is null and the resized image otherwise, and changing the policy changes
  nothing.
\<close>

theorem resize_noop:
  "(f_eq1 ext (mScaleFactor p) \<longrightarrow>
      DkResizeBatch_compute ext p img logStrings =
        (True, img, logStrings @ [DkResizeBatch_name @ '' scale factor is 1 -> ignoring''])) \<and>
   (DkResizeBatch.mMode p \<noteq> mode_default \<and> mProperty p = prop_increase_only \<and>
    f_lt1 ext (computed_sf ext p (img_size ext img)) \<longrightarrow>
      (\<exists>logStrings'. DkResizeBatch_compute ext p img logStrings = (True, img, logStrings'))) \<and>
   (DkResizeBatch.mMode p \<noteq> mode_default \<and> mProperty p = prop_decrease_only \<and>
    f_gt1 ext (computed_sf ext p (img_size ext img)) \<longrightarrow>
      (\<exists>logStrings'. DkResizeBatch_compute ext p img logStrings = (True, img, logStrings'))) \<and>
   (DkResizeBatch.mMode p = mode_default \<and> \<not> f_eq1 ext (mScaleFactor p) \<longrightarrow>
      DkResizeBatch_compute ext p img logStrings =
        (if isNull ext (resizeImage ext img QSize_default (mScaleFactor p) (mIplMethod p)
                          (mCorrectGamma p))
         then (False, img, logStrings @ [DkResizeBatch_name @ '' could not resize image.''])
         else (True,
               resizeImage ext img QSize_default (mScaleFactor p) (mIplMethod p)
                 (mCorrectGamma p),
               logStrings @
                 [DkResizeBatch_name @ '' image resized, scale factor: '' @
                  f_show ext (f_times100 ext (mScaleFactor p)) @ ''%'']))) \<and>
   (DkResizeBatch.mMode p = mode_default \<longrightarrow>
      DkResizeBatch_compute ext (p\<lparr>mProperty := prop\<rparr>) img logStrings =
        DkResizeBatch_compute ext p img logStrings)"
  by (simp add: DkResizeBatch_compute_def prepareProperties_def Let_def)

theorem resize_noop_witness:
  "DkResizeBatch_compute example_ext (example_resize 1 mode_height prop_default) ''pixels'' [] =
     (True, ''pixels'', [''[Resize Batch] scale factor is 1 -> ignoring'']) \<and>
   fst (DkResizeBatch_compute example_ext (example_resize 300 mode_long_side prop_increase_only)
          ''pixels'' []) \<and>
   fst (snd (DkResizeBatch_compute example_ext
               (example_resize 300 mode_long_side prop_increase_only) ''pixels'' [])) = ''pixels'' \<and>
   fst (DkResizeBatch_compute example_ext (example_resize 300 mode_short_side prop_decrease_only)
          ''pixels'' []) \<and>
   fst (snd (DkResizeBatch_compute example_ext
               (example_resize 300 mode_short_side prop_decrease_only) ''pixels'' [])) = ''pixels'' \<and>
   DkResizeBatch_compute example_ext (example_resize (1 / 2) mode_default prop_decrease_only)
     ''pixels'' [] =
     (True, ''pixels+resized'', [''[Resize Batch] image resized, scale factor: <float>%'']) \<and>
   DkResizeBatch_compute example_ext
     ((example_resize (1 / 2) mode_default prop_decrease_only)\<lparr>mProperty := prop_increase_only\<rparr>)
     ''pixels'' [] =
   DkResizeBatch_compute example_ext (example_resize (1 / 2) mode_default prop_decrease_only)
     ''pixels'' []"
  using resize_noop [of example_ext "example_resize 1 mode_height prop_default" "''pixels''" "[]"]
    resize_noop [of example_ext "example_resize 300 mode_long_side prop_increase_only"
      "''pixels''" "[]"]
    resize_noop [of example_ext "example_resize 300 mode_short_side prop_decrease_only"
      "''pixels''" "[]"]
    resize_noop [of example_ext "example_resize (1 / 2) mode_default prop_decrease_only"
      "''pixels''" "[]" prop_increase_only]
  by (auto simp add: example_ext_def example_resize_def computed_sf_def normalizedSize_def
      QSize_transpose_def DkResizeBatch_name_def)

subsection \<open>Calls and frames of the file operations\<close>

lemma backupFilePath_nonempty [simp]: "backupFilePath uuid out \<noteq> []"
  by (simp add: backupFilePath_def Let_def)

lemma process_loop_frame:
  "mFilePathIn (fst (snd (process_loop bs c it w))) = mFilePathIn it \<and>
   mFilePathOut (fst (snd (process_loop bs c it w))) = mFilePathOut it \<and>
   DkBatchProcess.mMode (fst (snd (process_loop bs c it w))) = DkBatchProcess.mMode it \<and>
   mDeleteOriginal (fst (snd (process_loop bs c it w))) = mDeleteOriginal it \<and>
   mCompression (fst (snd (process_loop bs c it w))) = mCompression it \<and>
   mBackupFilePath (fst (snd (process_loop bs c it w))) = mBackupFilePath it \<and>
   mIsProcessed (fst (snd (process_loop bs c it w))) = mIsProcessed it \<and>
   files (snd (snd (process_loop bs c it w))) = files w"
proof (induction bs c it w rule: process_loop.induct)
  case (1 imgC it w)
  then show ?case by simp
next
  case (2 batches imgC it w)
  then show ?case by (simp add: append_log_def)
next
  case (3 batch batches imgC it w)
  then show ?case
    by (simp add: append_log_def inc_failure_def record_call_def Let_def split: prod.splits)
qed

lemma process_loop_calls:
  "\<exists>evs. trace (snd (snd (process_loop bs c it w))) = trace w @ evs \<and>
         map (\<lambda>e. step_name (fst e)) evs = map (\<lambda>b. Some (batch_name b)) (configured bs) \<and>
         linked c evs (fst (process_loop bs c it w)) \<and>
         mFailure (fst (snd (process_loop bs c it w))) = mFailure it + failures evs"
proof (induction bs arbitrary: c it w)
  case Nil
  then show ?case by (simp add: failures_def)
next
  case (Cons a bs)
  show ?case
  proof (cases a)
    case None
    with Cons [of c "append_log [''Error: cannot process a NULL function.''] it" w]
    show ?thesis by (simp add: append_log_def)
  next
    case (Some batch)
    obtain ok imgC' ls cInfos
      where r: "batch_compute batch c (mLogStrings it) = (ok, imgC', ls, cInfos)"
      by (cases "batch_compute batch c (mLogStrings it)") auto
    define it3 where "it3 = (let it1 = it\<lparr>mLogStrings := ls\<rparr>;
              it2 = (if \<not> ok then inc_failure (append_log [batch_name batch @ '' failed''] it1)
                     else it1) in it2\<lparr>mInfos := mInfos it2 @ cInfos\<rparr>)"
    define w1 where "w1 = record_call w (Compute (batch_name batch) c imgC') ok"
    have step: "process_loop (a # bs) c it w = process_loop bs imgC' it3 w1"
      by (simp add: Some r it3_def w1_def Let_def)
    from Cons [of imgC' it3 w1]
    obtain evs where e: "trace (snd (snd (process_loop bs imgC' it3 w1))) = trace w1 @ evs"
      "map (\<lambda>e. step_name (fst e)) evs = map (\<lambda>b. Some (batch_name b)) (configured bs)"
      "linked imgC' evs (fst (process_loop bs imgC' it3 w1))"
      "mFailure (fst (snd (process_loop bs imgC' it3 w1))) = mFailure it3 + failures evs"
      by blast
    have f: "mFailure it3 = mFailure it + (if ok then 0 else 1)"
      by (simp add: it3_def Let_def inc_failure_def append_log_def)
    have t: "trace w1 = trace w @ [(Compute (batch_name batch) c imgC', ok)]"
      by (simp add: w1_def record_call_def)
    show ?thesis
      unfolding step
      by (rule exI [of _ "(Compute (batch_name batch) c imgC', ok) # evs"])
        (simp add: e f t failures_def Some)
  qed
qed

lemma prepare_frame:
  "mFilePathIn (fst (snd (prepareDeleteExisting os it w))) = mFilePathIn it \<and>
   mFilePathOut (fst (snd (prepareDeleteExisting os it w))) = mFilePathOut it \<and>
   DkBatchProcess.mMode (fst (snd (prepareDeleteExisting os it w))) = DkBatchProcess.mMode it \<and>
   mCompression (fst (snd (prepareDeleteExisting os it w))) = mCompression it \<and>
   mDeleteOriginal (fst (snd (prepareDeleteExisting os it w))) = mDeleteOriginal it \<and>
   mFailure (fst (snd (prepareDeleteExisting os it w))) = mFailure it"
  by (simp add: prepareDeleteExisting_def QFile_rename_def Let_def append_log_def)

lemma prepare_calls:
  "trace (snd (snd (prepareDeleteExisting os it w))) =
     trace w @
     (if file_exists w (mFilePathOut it) \<and> DkBatchProcess.mMode it = mode_overwrite \<and>
         \<not> file_exists w (backupFilePath (createUuid os (length (trace w))) (mFilePathOut it))
      then [(Rename (mFilePathOut it)
               (backupFilePath (createUuid os (length (trace w))) (mFilePathOut it)),
             fst (prepareDeleteExisting os it w))]
      else [])"
  by (simp add: prepareDeleteExisting_def QFile_rename_def Let_def record_call_def)

lemma prepare_refused_files:
  "\<not> fst (prepareDeleteExisting os it w) \<Longrightarrow>
     files (snd (snd (prepareDeleteExisting os it w))) = files w"
  by (simp add: prepareDeleteExisting_def QFile_rename_def Let_def record_call_def
      split: if_splits)

lemma prepare_backup:
  "mBackupFilePath (fst (snd (prepareDeleteExisting os it w))) =
     (if file_exists w (mFilePathOut it) \<and> DkBatchProcess.mMode it = mode_overwrite \<and>
         fst (prepareDeleteExisting os it w)
      then backupFilePath (createUuid os (length (trace w))) (mFilePathOut it)
      else mBackupFilePath it)"
  by (auto simp add: prepareDeleteExisting_def QFile_rename_def Let_def append_log_def)

lemma save_calls:
  "trace (snd (saveImage os c p k w)) = trace w @ [(Save p c k, fst (saveImage os c p k w))]"
  by (simp add: saveImage_def Let_def record_call_def)

lemma finalize_calls:
  "trace (snd (snd (deleteOrRestoreExisting os it w))) =
     trace w @
     (if file_exists w (mFilePathOut it) \<and> mBackupFilePath it \<noteq> [] \<and>
         file_exists w (mBackupFilePath it)
      then [(Remove (mBackupFilePath it), fst (deleteOrRestoreExisting os it w))]
      else if \<not> file_exists w (mFilePathOut it)
      then [(Rename (mBackupFilePath it) (mFilePathOut it),
             fst (deleteOrRestoreExisting os it w))]
      else [])"
  by (simp add: deleteOrRestoreExisting_def QFile_rename_def QFile_remove_def Let_def
      record_call_def)

lemma finalize_frame:
  "mFailure (fst (snd (deleteOrRestoreExisting os it w))) = mFailure it \<and>
   mFilePathIn (fst (snd (deleteOrRestoreExisting os it w))) = mFilePathIn it \<and>
   mFilePathOut (fst (snd (deleteOrRestoreExisting os it w))) = mFilePathOut it \<and>
   DkBatchProcess.mMode (fst (snd (deleteOrRestoreExisting os it w))) = DkBatchProcess.mMode it \<and>
   mDeleteOriginal (fst (snd (deleteOrRestoreExisting os it w))) = mDeleteOriginal it"
  by (simp add: deleteOrRestoreExisting_def QFile_rename_def QFile_remove_def Let_def
      append_log_def)

lemma prepare_ok_iff:
  assumes "DkBatchProcess.mMode it = mode_overwrite" and "file_exists w (mFilePathOut it)"
  shows "fst (prepareDeleteExisting os it w) =
           (\<not> file_exists w (backupFilePath (createUuid os (length (trace w))) (mFilePathOut it)) \<and>
            permits os (length (trace w))
              (Rename (mFilePathOut it)
                 (backupFilePath (createUuid os (length (trace w))) (mFilePathOut it))))"
  using assms
  by (simp add: prepareDeleteExisting_def Let_def QFile_rename_def)

lemma process_save_unfold:
  "process_save os c it w =
     (let p = prepareDeleteExisting os it w in
        if \<not> fst p then (False, inc_failure (fst (snd p)), snd (snd p))
        else
          let s = saveImage os c (mFilePathOut it) (mCompression it) (snd (snd p));
              it2 = (if fst s then append_log [mFilePathOut it @ '' saved...''] (fst (snd p))
                     else inc_failure
                            (append_log [''Could not save: '' @ mFilePathOut it] (fst (snd p))));
              f = deleteOrRestoreExisting os it2 (snd s)
          in if \<not> fst f then (False, inc_failure (fst (snd f)), snd (snd f))
             else (True, fst (snd f), snd (snd f)))"
proof -
  obtain ok it1 w1 where p: "prepareDeleteExisting os it w = (ok, it1, w1)"
    by (cases "prepareDeleteExisting os it w") auto
  have fr: "mFilePathOut it1 = mFilePathOut it" "mCompression it1 = mCompression it"
    using prepare_frame [of os it w] by (simp_all add: p)
  show ?thesis
    by (simp add: process_save_def p fr Let_def split: prod.splits)
qed

lemma process_save_attempt:
  assumes "fst (prepareDeleteExisting os it w)"
  shows "(Save (mFilePathOut it) c (mCompression it),
          fst (saveImage os c (mFilePathOut it) (mCompression it)
                 (snd (snd (prepareDeleteExisting os it w)))))
           \<in> set (new_calls w (snd (snd (process_save os c it w))))"
proof -
  define w1 where "w1 = snd (snd (prepareDeleteExisting os it w))"
  define s where "s = saveImage os c (mFilePathOut it) (mCompression it) w1"
  define it2 where "it2 =
    (if fst s then append_log [mFilePathOut it @ '' saved...''] (fst (snd (prepareDeleteExisting os it w)))
     else inc_failure (append_log [''Could not save: '' @ mFilePathOut it]
            (fst (snd (prepareDeleteExisting os it w)))))"
  define f where "f = deleteOrRestoreExisting os it2 (snd s)"
  have w': "snd (snd (process_save os c it w)) = snd (snd f)"
    using assms
    by (simp add: process_save_unfold Let_def w1_def s_def it2_def f_def)
  obtain pe where t1: "trace w1 = trace w @ pe"
    using prepare_calls [of os it w] unfolding w1_def by blast
  have t2: "trace (snd s) = trace w1 @ [(Save (mFilePathOut it) c (mCompression it), fst s)]"
    unfolding s_def by (rule save_calls)
  obtain fe where t3: "trace (snd (snd f)) = trace (snd s) @ fe"
    using finalize_calls [of os it2 "snd s"] unfolding f_def by blast
  show ?thesis
    unfolding w' new_calls_def t3 t2 t1
    by (simp add: s_def w1_def)
qed

lemma process_save_refused:
  assumes "\<not> fst (prepareDeleteExisting os it w)"
  shows "\<not> fst (process_save os c it w) \<and>
         mFailure (fst (snd (process_save os c it w))) = mFailure it + 1 \<and>
         files (snd (snd (process_save os c it w))) = files w \<and>
         (new_calls w (snd (snd (process_save os c it w))) = [] \<or>
          new_calls w (snd (snd (process_save os c it w))) =
            [(Rename (mFilePathOut it)
                (backupFilePath (createUuid os (length (trace w))) (mFilePathOut it)), False)])"
proof -
  have r: "process_save os c it w =
      (False, inc_failure (fst (snd (prepareDeleteExisting os it w))),
       snd (snd (prepareDeleteExisting os it w)))"
    using assms by (simp add: process_save_unfold Let_def)
  show ?thesis
    unfolding r new_calls_def
    using assms prepare_frame [of os it w] prepare_calls [of os it w]
      prepare_refused_files [OF assms]
    by (simp add: inc_failure_def)
qed

lemma process_save_remove:
  assumes "mBackupFilePath it = []" and "file_exists w p"
  shows "(Remove p, b) \<notin> set (new_calls w (snd (snd (process_save os c it w))))"
proof (cases "fst (prepareDeleteExisting os it w)")
  case False
  from process_save_refused [OF False, of c] show ?thesis by auto
next
  case True
  define it1 where "it1 = fst (snd (prepareDeleteExisting os it w))"
  define w1 where "w1 = snd (snd (prepareDeleteExisting os it w))"
  define s where "s = saveImage os c (mFilePathOut it) (mCompression it) w1"
  define it2 where "it2 =
    (if fst s then append_log [mFilePathOut it @ '' saved...''] it1
     else inc_failure (append_log [''Could not save: '' @ mFilePathOut it] it1))"
  define f where "f = deleteOrRestoreExisting os it2 (snd s)"
  define bu where "bu = backupFilePath (createUuid os (length (trace w))) (mFilePathOut it)"
  have w': "snd (snd (process_save os c it w)) = snd (snd f)"
    using True
    by (simp add: process_save_unfold Let_def w1_def s_def it2_def f_def it1_def)
  have t1: "trace w1 = trace w @
     (if file_exists w (mFilePathOut it) \<and> DkBatchProcess.mMode it = mode_overwrite \<and>
         \<not> file_exists w bu then [(Rename (mFilePathOut it) bu, True)] else [])"
    using prepare_calls [of os it w] True unfolding w1_def bu_def by simp
  have t2: "trace (snd s) = trace w1 @ [(Save (mFilePathOut it) c (mCompression it), fst s)]"
    unfolding s_def by (rule save_calls)
  have b2: "mBackupFilePath it2 =
      (if file_exists w (mFilePathOut it) \<and> DkBatchProcess.mMode it = mode_overwrite
       then bu else [])"
    using prepare_backup [of os it w] True assms(1)
    by (simp add: it2_def it1_def bu_def append_log_def inc_failure_def)
  have nb: "file_exists w (mFilePathOut it) \<and> DkBatchProcess.mMode it = mode_overwrite \<Longrightarrow>
      bu \<noteq> p"
    using prepare_ok_iff [of it w os] True assms(2) unfolding bu_def by auto
  have t3: "\<exists>fe. trace (snd (snd f)) = trace (snd s) @ fe \<and> (Remove p, b) \<notin> set fe"
    using finalize_calls [of os it2 "snd s"] nb unfolding f_def b2
    by (auto split: if_splits)
  then obtain fe where fe: "trace (snd (snd f)) = trace (snd s) @ fe" "(Remove p, b) \<notin> set fe"
    by blast
  show ?thesis
    using fe(2) unfolding w' new_calls_def fe(1) t2 t1 by simp
qed

lemma new_calls_append: "trace w' = trace w @ evs \<Longrightarrow> new_calls w w' = evs"
  by (simp add: new_calls_def)

lemma process_save_prefix:
  "\<exists>evs. trace (snd (snd (process_save os c it w))) = trace w @ evs"
proof (cases "fst (prepareDeleteExisting os it w)")
  case False
  then show ?thesis
    using prepare_calls [of os it w] by (simp add: process_save_unfold Let_def)
next
  case True
  define w1 where "w1 = snd (snd (prepareDeleteExisting os it w))"
  define s where "s = saveImage os c (mFilePathOut it) (mCompression it) w1"
  define it2 where "it2 =
    (if fst s then append_log [mFilePathOut it @ '' saved...''] (fst (snd (prepareDeleteExisting os it w)))
     else inc_failure (append_log [''Could not save: '' @ mFilePathOut it]
            (fst (snd (prepareDeleteExisting os it w)))))"
  define f where "f = deleteOrRestoreExisting os it2 (snd s)"
  have w': "snd (snd (process_save os c it w)) = snd (snd f)"
    using True
    by (simp add: process_save_unfold Let_def w1_def s_def it2_def f_def)
  obtain pe where t1: "trace w1 = trace w @ pe"
    using prepare_calls [of os it w] unfolding w1_def by blast
  have t2: "trace (snd s) = trace w1 @ [(Save (mFilePathOut it) c (mCompression it), fst s)]"
    unfolding s_def by (rule save_calls)
  obtain fe where t3: "trace (snd (snd f)) = trace (snd s) @ fe"
    using finalize_calls [of os it2 "snd s"] unfolding f_def by blast
  show ?thesis
    unfolding w' t3 t2 t1 by simp
qed

lemma step_calls_no_remove:
  "map (\<lambda>e. step_name (fst e)) evs = map (\<lambda>b. Some (batch_name b)) bs \<Longrightarrow>
     (Remove p, b) \<notin> set evs"
proof (induction evs arbitrary: bs)
  case Nil
  then show ?case by simp
next
  case (Cons e evs)
  then obtain b' bs' where "bs = b' # bs'" by (cases bs) auto
  with Cons show ?case by (cases e) auto
qed

lemma process_no_remove:
  assumes "mBackupFilePath it = []" and "file_exists w (mFilePathIn it)"
  shows "(Remove (mFilePathIn it), b) \<notin> set (new_calls w (snd (snd (process ext os it w))))"
proof -
  let ?it0 = "append_log [''processing '' @ mFilePathIn it] it"
  obtain loaded w0 where l: "loadImage os (mFilePathIn it) w = (loaded, w0)"
    by (cases "loadImage os (mFilePathIn it) w") auto
  have t0: "trace w0 = trace w @ [(Load (mFilePathIn it), loaded \<noteq> None)]" and f0: "files w0 = files w"
    using l assms(2) by (auto simp add: loadImage_def Let_def record_call_def file_exists_def)
  show ?thesis
  proof (cases "loaded = None \<or> isNull ext (c_image (the loaded))")
    case True
    then have "snd (snd (process ext os it w)) = w0"
      using l by (simp add: process_def Let_def append_log_def)
    then show ?thesis by (simp add: new_calls_def t0)
  next
    case False
    obtain c1 it1 w1 where lp: "process_loop (mProcessFunctions it) (the loaded) ?it0 w0 = (c1, it1, w1)"
      by (cases "process_loop (mProcessFunctions it) (the loaded) ?it0 w0") auto
    have p: "process ext os it w = process_save os c1 it1 w1"
      using False l lp by (auto simp add: process_def Let_def append_log_def)
    from process_loop_calls [of "mProcessFunctions it" "the loaded" ?it0 w0]
    obtain evs where e: "trace w1 = trace w0 @ evs"
      "map (\<lambda>e. step_name (fst e)) evs =
         map (\<lambda>b. Some (batch_name b)) (configured (mProcessFunctions it))"
      unfolding lp by auto
    have fr: "mBackupFilePath it1 = []" "files w1 = files w" "mFilePathIn it1 = mFilePathIn it"
      using process_loop_frame [of "mProcessFunctions it" "the loaded" ?it0 w0] assms(1) f0
      unfolding lp by (simp_all add: append_log_def)
    have ex: "file_exists w1 (mFilePathIn it)"
      using assms(2) fr(2) by (simp add: file_exists_def)
    obtain se where s: "trace (snd (snd (process_save os c1 it1 w1))) = trace w1 @ se"
      using process_save_prefix by blast
    have ns: "(Remove (mFilePathIn it), b) \<notin> set se"
      using process_save_remove [OF fr(1) ex, of b os c1] new_calls_append [OF s] by simp
    have ne: "(Remove (mFilePathIn it), b) \<notin> set evs"
      using step_calls_no_remove [OF e(2)] .
    show ?thesis
      unfolding p new_calls_def s e t0 using ns ne by simp
  qed
qed

lemma copyFile_fresh:
  assumes "mBackupFilePath it = []"
  shows "copyFile os it w =
     (if fst (QFile_copy os (mFilePathIn it) (mFilePathOut it) w) then
        (True,
         append_log [''Copying: '' @ mFilePathIn it @ '' -> '' @ mFilePathOut it] it,
         snd (QFile_copy os (mFilePathIn it) (mFilePathOut it) w))
      else
        (False,
         append_log [''Error: could not copy file'', ''Input: '' @ mFilePathIn it,
                     ''Output: '' @ mFilePathOut it,
                     errorString os (Copy (mFilePathIn it) (mFilePathOut it))] it,
         snd (QFile_copy os (mFilePathIn it) (mFilePathOut it) w)))"
  using assms
  by (auto simp add: copyFile_def deleteOrRestoreExisting_def split: prod.splits)

lemma copy_calls:
  "trace (snd (QFile_copy os src dst w)) = trace w @ [(Copy src dst, fst (QFile_copy os src dst w))]"
  by (simp add: QFile_copy_def Let_def record_call_def)

lemma deleteOriginal_calls:
  "trace (snd (snd (deleteOriginalFile os it w))) =
     trace w @
     (if mFilePathIn it \<noteq> mFilePathOut it \<and> mFailure it = 0 \<and> mDeleteOriginal it
      then [(Remove (mFilePathIn it), fst (deleteOriginalFile os it w))] else [])"
  by (simp add: deleteOriginalFile_def QFile_remove_def Let_def record_call_def)

lemma deleteOriginal_unchanged:
  "mFilePathIn it = mFilePathOut it \<or> mFailure it \<noteq> 0 \<or> \<not> mDeleteOriginal it \<Longrightarrow>
     snd (snd (deleteOriginalFile os it w)) = w"
  by (auto simp add: deleteOriginalFile_def)

lemma process_loop_append:
  "process_loop (bs @ bs') c it w =
     (case process_loop bs c it w of (c1, it1, w1) \<Rightarrow> process_loop bs' c1 it1 w1)"
proof (induction bs arbitrary: c it w)
  case Nil
  then show ?case by simp
next
  case (Cons a bs)
  show ?case
  proof (cases a)
    case None
    then show ?thesis using Cons by simp
  next
    case (Some batch)
    then show ?thesis using Cons by (simp add: Let_def split: prod.splits)
  qed
qed

lemma process_loop_nulls:
  "process_loop (replicate n None) c it w =
     (c, append_log (replicate n ''Error: cannot process a NULL function.'') it, w)"
proof (induction n arbitrary: it)
  case 0
  then show ?case by (simp add: append_log_def)
next
  case (Suc n)
  then show ?case by (simp add: append_log_def replicate_app_Cons_same)
qed

lemma example_backup: "backupFilePath ''{uuid}'' ''/out/a.jpg'' = ''/out/a{uuid}.jpg''"
  by (simp add: backupFilePath_def QFileInfo_absolutePath_def QFileInfo_baseName_def
      QFileInfo_suffix_def QFileInfo_fileName_def Let_def)

lemmas protocol_defs =
  process_save_def prepareDeleteExisting_def deleteOrRestoreExisting_def
  saveImage_def QFile_rename_def QFile_remove_def record_call_def file_exists_def
  append_log_def inc_failure_def Let_def

lemmas process_defs = process_def loadImage_def protocol_defs

lemmas resize_defs =
  resize_step_def DkAbstractBatch_compute_def DkResizeBatch_compute_def prepareProperties_def
  setImage_def DkResizeBatch_name_def QSize_default_def

subsection \<open>The back-up protocol\<close>

text \<open>
  C2, as the code behaves. The item below is in overwrite mode and its output exists.
  The back-up is taken and the save succeeds, but the operating system refuses to
  remove the back-up: \<^verbatim>\<open>deleteOrRestoreExisting()\<close> logs the error and returns false,
  and afterwards the output holds the new content while the back-up file still exists.
\<close>

theorem backup_counterexample:
  "mMode example_overwrite = mode_overwrite \<and>
   file_exists example_fs (mFilePathOut example_overwrite) \<and>
   fst (prepareDeleteExisting (example_os_denying [Remove ''/out/a{uuid}.jpg''])
          example_overwrite example_fs) \<and>
   files (snd (snd (process_save (example_os_denying [Remove ''/out/a{uuid}.jpg''])
                      example_new example_overwrite example_fs))) ''/out/a.jpg'' = Some example_new \<and>
   files (snd (snd (process_save (example_os_denying [Remove ''/out/a{uuid}.jpg''])
                      example_new example_overwrite example_fs))) ''/out/a{uuid}.jpg'' =
     Some example_old"
  by (simp add: example_os_def example_os_denying_def example_fs_def example_overwrite_def example_new_def
      example_old_def DkBatchProcess_new_def example_backup protocol_defs)

text \<open>
  C2, amended. For an item in overwrite mode whose output \<open>O\<close> exists and whose
  back-up was taken (\<^verbatim>\<open>prepareDeleteExisting()\<close> succeeded, renaming \<open>O\<close> to the
  back-up \<open>bu\<close>), the rest of \<^verbatim>\<open>process()\<close> ends in one of four ways.
  Save and removal of the back-up succeed: \<open>O\<close> holds the new content, no back-up
  remains, no failure is counted.
  The save succeeds and the removal fails: the error is logged, one failure is counted,
  \<open>O\<close> holds the new content and the back-up still holds the original.
  The save fails (leaving no file at \<open>O\<close>) and the rename back succeeds: \<open>O\<close> holds its
  original content again, no back-up remains, the restoring is logged and the failed
  save is counted.
  The save fails and the rename back fails: the location of the back-up is logged, two
  failures are counted, and the back-up still holds the original.
\<close>

theorem backup_protocol:
  assumes "mMode it = mode_overwrite" and "file_exists w (mFilePathOut it)"
    and "fst (prepareDeleteExisting os it w)"
    and "bu = backupFilePath (createUuid os (length (trace w))) (mFilePathOut it)"
    and "res = process_save os imgC it w"
    and "save_ok = permits os (length (trace w) + 1) (Save (mFilePathOut it) imgC (mCompression it))"
    and "remove_ok = permits os (length (trace w) + 2) (Remove bu)"
    and "restore_ok = permits os (length (trace w) + 2) (Rename bu (mFilePathOut it))"
  shows "(save_ok \<and> remove_ok \<longrightarrow>
            fst res \<and> mFailure (fst (snd res)) = mFailure it \<and>
            files (snd (snd res)) (mFilePathOut it) = Some imgC \<and>
            files (snd (snd res)) bu = None) \<and>
         (save_ok \<and> \<not> remove_ok \<longrightarrow>
            \<not> fst res \<and> mFailure (fst (snd res)) = mFailure it + 1 \<and>
            files (snd (snd res)) (mFilePathOut it) = Some imgC \<and>
            files (snd (snd res)) bu = files w (mFilePathOut it) \<and>
            ''Error: could not delete existing file'' \<in> set (mLogStrings (fst (snd res)))) \<and>
         (\<not> save_ok \<and> restore_ok \<longrightarrow>
            mFailure (fst (snd res)) = mFailure it + 1 \<and>
            files (snd (snd res)) (mFilePathOut it) = files w (mFilePathOut it) \<and>
            files (snd (snd res)) bu = None \<and>
            ''I could not save to '' @ mFilePathOut it @ '' so I restored the original file.''
              \<in> set (mLogStrings (fst (snd res)))) \<and>
         (\<not> save_ok \<and> \<not> restore_ok \<longrightarrow>
            \<not> fst res \<and> mFailure (fst (snd res)) = mFailure it + 2 \<and>
            files (snd (snd res)) (mFilePathOut it) = None \<and>
            files (snd (snd res)) bu = files w (mFilePathOut it) \<and>
            ''Ui - a lot of things went wrong sorry, your original file can be found here: '' @ bu
              \<in> set (mLogStrings (fst (snd res))))"
proof -
  let ?out = "mFilePathOut it"
  have bu_free: "\<not> file_exists w bu"
    and perm: "permits os (length (trace w)) (Rename ?out bu)"
    using assms(3) prepare_ok_iff [OF assms(1,2), of os] assms(4) by simp_all
  have ne: "bu \<noteq> ?out" "?out \<noteq> []" "bu \<noteq> []"
    using bu_free assms(2,4) by (auto simp: file_exists_def backupFilePath_nonempty)
  show ?thesis
    using assms(1,2) bu_free perm ne
    unfolding assms(5,6,7,8) assms(4) [symmetric]
    by (simp add: process_save_def prepareDeleteExisting_def deleteOrRestoreExisting_def
        saveImage_def QFile_rename_def QFile_remove_def record_call_def file_exists_def
        append_log_def inc_failure_def Let_def assms(4) [symmetric])
qed

theorem backup_protocol_witness:
  "files (snd (snd (process_save example_os example_new example_overwrite example_fs)))
     ''/out/a.jpg'' = Some example_new \<and>
   files (snd (snd (process_save example_os example_new example_overwrite example_fs)))
     ''/out/a{uuid}.jpg'' = None \<and>
   files (snd (snd (process_save (example_os_denying [Save ''/out/a.jpg'' example_new (- 1)])
                      example_new example_overwrite example_fs))) ''/out/a.jpg'' = Some example_old \<and>
   files (snd (snd (process_save (example_os_denying [Save ''/out/a.jpg'' example_new (- 1)])
                      example_new example_overwrite example_fs))) ''/out/a{uuid}.jpg'' = None \<and>
   mFailure (fst (snd (process_save
        (example_os_denying [Save ''/out/a.jpg'' example_new (- 1),
                             Rename ''/out/a{uuid}.jpg'' ''/out/a.jpg''])
        example_new example_overwrite example_fs))) = 2 \<and>
   files (snd (snd (process_save
        (example_os_denying [Save ''/out/a.jpg'' example_new (- 1),
                             Rename ''/out/a{uuid}.jpg'' ''/out/a.jpg''])
        example_new example_overwrite example_fs))) ''/out/a{uuid}.jpg'' = Some example_old \<and>
   mFailure (fst (snd (process_save (example_os_denying [Remove ''/out/a{uuid}.jpg''])
                         example_new example_overwrite example_fs))) = 1"
proof -
  have m: "mMode example_overwrite = mode_overwrite"
    by (simp add: example_os_def example_os_denying_def example_fs_def example_overwrite_def example_new_def
      example_old_def DkBatchProcess_new_def example_backup)
  have e: "file_exists example_fs (mFilePathOut example_overwrite)"
    by (simp add: example_os_def example_os_denying_def example_fs_def example_overwrite_def example_new_def
      example_old_def DkBatchProcess_new_def example_backup file_exists_def)
  have p: "fst (prepareDeleteExisting (example_os_denying ds) example_overwrite example_fs)"
    if "Rename ''/out/a.jpg'' ''/out/a{uuid}.jpg'' \<notin> set ds" for ds
    using that by (simp add: example_os_def example_os_denying_def example_fs_def example_overwrite_def example_new_def
      example_old_def DkBatchProcess_new_def example_backup protocol_defs)
  have p0: "fst (prepareDeleteExisting example_os example_overwrite example_fs)"
    by (simp add: example_os_def example_os_denying_def example_fs_def example_overwrite_def example_new_def
      example_old_def DkBatchProcess_new_def example_backup protocol_defs)
  note a = backup_protocol [OF m e p0 refl refl refl refl refl, of example_new]
  note b = backup_protocol [OF m e p refl refl refl refl refl,
      of "[Save ''/out/a.jpg'' example_new (- 1)]" example_new]
  note c = backup_protocol [OF m e p refl refl refl refl refl,
      of "[Save ''/out/a.jpg'' example_new (- 1), Rename ''/out/a{uuid}.jpg'' ''/out/a.jpg'']"
         example_new]
  note d = backup_protocol [OF m e p refl refl refl refl refl,
      of "[Remove ''/out/a{uuid}.jpg'']" example_new]
  have a': "files (snd (snd (process_save example_os example_new example_overwrite example_fs)))
     ''/out/a.jpg'' = Some example_new \<and>
   files (snd (snd (process_save example_os example_new example_overwrite example_fs)))
     ''/out/a{uuid}.jpg'' = None"
    using a by (simp add: example_os_def example_os_denying_def example_fs_def example_overwrite_def example_new_def
      example_old_def DkBatchProcess_new_def example_backup)
  show ?thesis
    using a' b c d by (simp add: example_os_def example_os_denying_def example_fs_def example_overwrite_def example_new_def
      example_old_def DkBatchProcess_new_def example_backup)
qed

subsection \<open>Failing steps\<close>

text \<open>
  C5, as the code behaves. The item below is in overwrite mode, its output exists and
  its image loads. Its first step fails and its second step still runs, but the
  operating system refuses the rename of the output to the back-up name:
  \<^verbatim>\<open>prepareDeleteExisting()\<close> fails and \<^verbatim>\<open>process()\<close> returns before any save. The
  calls made are the load, the two steps and the refused rename.
\<close>

theorem step_failures_counterexample:
  "fst (loadImage (example_os_denying [Rename ''/out/a.jpg'' ''/out/a{uuid}.jpg''])
          (mFilePathIn example_chain) example_fs) = Some example_pixels \<and>
   \<not> isNull example_ext (c_image example_pixels) \<and>
   map fst (trace (snd (snd (process example_ext
                               (example_os_denying [Rename ''/out/a.jpg'' ''/out/a{uuid}.jpg''])
                               example_chain example_fs)))) =
     [Load ''/in/a.jpg'',
      Compute ''[Failing Batch]'' example_pixels example_pixels,
      Compute ''[Resize Batch]'' example_pixels (example_pixels\<lparr>c_image := ''pixels+resized''\<rparr>),
      Rename ''/out/a.jpg'' ''/out/a{uuid}.jpg'']"
  by (simp add: example_pixels_def example_failing_step_def example_chain_def example_ext_def
      example_resize_def resize_defs example_os_def example_os_denying_def example_fs_def
      example_overwrite_def DkBatchProcess_new_def example_backup process_defs)

text \<open>
  C5, amended. For an item whose image loads: a step \<open>b\<close> that is set, wherever it
  stands in the chain, is computed (\<open>batch_compute b\<close>) on the container and the log
  that the entries before it left; when it returns false its line is logged and the
  failure counter is incremented by one; and in either case the entries after it run
  from the container it left. So the loop calls every step that is set, in the order
  of the chain, each on the container the call before left, and the counter after the
  loop is the one before plus the number of calls that returned false. The save is
  then attempted, with the container the last call left, exactly when
  \<^verbatim>\<open>prepareDeleteExisting()\<close> succeeds; when it fails, \<^verbatim>\<open>process()\<close> counts one
  more failure and returns false after at most the refused rename to the back-up name.
\<close>

theorem step_failures_continue:
  assumes "loadImage os (mFilePathIn it) w = (Some c0, w0)" and "\<not> isNull ext (c_image c0)"
    and "process_loop (mProcessFunctions it) c0
           (append_log [''processing '' @ mFilePathIn it] it) w0 = (c1, it1, w1)"
    and "process ext os it w = (r, it', w')"
  shows "(mProcessFunctions it = bs @ Some b # bs' \<longrightarrow>
            (case process_loop bs c0 (append_log [''processing '' @ mFilePathIn it] it) w0 of
               (c, itb, wb) \<Rightarrow>
                 case batch_compute b c (mLogStrings itb) of
                   (ok, c', logStrings', cInfos) \<Rightarrow>
                     process_loop bs' c'
                       ((if ok then itb\<lparr>mLogStrings := logStrings'\<rparr>
                         else itb\<lparr>mLogStrings := logStrings' @ [batch_name b @ '' failed''],
                                  mFailure := mFailure itb + 1\<rparr>)
                          \<lparr>mInfos := mInfos itb @ cInfos\<rparr>)
                       (record_call wb (Compute (batch_name b) c c') ok) = (c1, it1, w1))) \<and>
         (\<exists>evs. trace w1 = trace w0 @ evs \<and>
           map (\<lambda>e. step_name (fst e)) evs =
             map (\<lambda>b. Some (batch_name b)) (configured (mProcessFunctions it)) \<and>
           linked c0 evs c1 \<and>
           mFailure it1 = mFailure it + failures evs \<and>
           (fst (prepareDeleteExisting os it1 w1) \<longrightarrow>
              (\<exists>saved. (Save (mFilePathOut it) c1 (mCompression it), saved)
                 \<in> set (new_calls w1 w'))) \<and>
           (\<not> fst (prepareDeleteExisting os it1 w1) \<longrightarrow>
              \<not> r \<and> mFailure it' = mFailure it1 + 1 \<and>
              (new_calls w1 w' = [] \<or>
               new_calls w1 w' =
                 [(Rename (mFilePathOut it)
                     (backupFilePath (createUuid os (length (trace w1))) (mFilePathOut it)),
                   False)])))"
proof (rule conjI)
  show "mProcessFunctions it = bs @ Some b # bs' \<longrightarrow>
            (case process_loop bs c0 (append_log [''processing '' @ mFilePathIn it] it) w0 of
               (c, itb, wb) \<Rightarrow>
                 case batch_compute b c (mLogStrings itb) of
                   (ok, c', logStrings', cInfos) \<Rightarrow>
                     process_loop bs' c'
                       ((if ok then itb\<lparr>mLogStrings := logStrings'\<rparr>
                         else itb\<lparr>mLogStrings := logStrings' @ [batch_name b @ '' failed''],
                                  mFailure := mFailure itb + 1\<rparr>)
                          \<lparr>mInfos := mInfos itb @ cInfos\<rparr>)
                       (record_call wb (Compute (batch_name b) c c') ok) = (c1, it1, w1))"
  proof
    assume ch: "mProcessFunctions it = bs @ Some b # bs'"
    show "case process_loop bs c0 (append_log [''processing '' @ mFilePathIn it] it) w0 of
               (c, itb, wb) \<Rightarrow>
                 case batch_compute b c (mLogStrings itb) of
                   (ok, c', logStrings', cInfos) \<Rightarrow>
                     process_loop bs' c'
                       ((if ok then itb\<lparr>mLogStrings := logStrings'\<rparr>
                         else itb\<lparr>mLogStrings := logStrings' @ [batch_name b @ '' failed''],
                                  mFailure := mFailure itb + 1\<rparr>)
                          \<lparr>mInfos := mInfos itb @ cInfos\<rparr>)
                       (record_call wb (Compute (batch_name b) c c') ok) = (c1, it1, w1)"
      using assms(3) unfolding ch process_loop_append
      by (auto simp add: Let_def inc_failure_def append_log_def split: prod.splits)
  qed
next
  let ?it0 = "append_log [''processing '' @ mFilePathIn it] it"
  from process_loop_calls [of "mProcessFunctions it" c0 ?it0 w0]
  obtain evs where e: "trace w1 = trace w0 @ evs"
    "map (\<lambda>e. step_name (fst e)) evs =
       map (\<lambda>b. Some (batch_name b)) (configured (mProcessFunctions it))"
    "linked c0 evs c1" "mFailure it1 = mFailure ?it0 + failures evs"
    unfolding assms(3) by auto
  have fr: "mFilePathOut it1 = mFilePathOut it" "mCompression it1 = mCompression it"
    using process_loop_frame [of "mProcessFunctions it" c0 ?it0 w0]
    unfolding assms(3) by (simp_all add: append_log_def)
  have p: "process_save os c1 it1 w1 = (r, it', w')"
    using assms by (auto simp add: process_def Let_def append_log_def)
  have a: "\<exists>saved. (Save (mFilePathOut it) c1 (mCompression it), saved) \<in> set (new_calls w1 w')"
    if "fst (prepareDeleteExisting os it1 w1)"
    using process_save_attempt [OF that, of c1] p fr by auto
  have b: "\<not> r \<and> mFailure it' = mFailure it1 + 1 \<and>
              (new_calls w1 w' = [] \<or>
               new_calls w1 w' =
                 [(Rename (mFilePathOut it)
                     (backupFilePath (createUuid os (length (trace w1))) (mFilePathOut it)),
                   False)])"
    if "\<not> fst (prepareDeleteExisting os it1 w1)"
    using process_save_refused [OF that, of c1] p fr by simp
  have m: "mFailure ?it0 = mFailure it"
    by (simp add: append_log_def)
  show "\<exists>evs. trace w1 = trace w0 @ evs \<and>
           map (\<lambda>e. step_name (fst e)) evs =
             map (\<lambda>b. Some (batch_name b)) (configured (mProcessFunctions it)) \<and>
           linked c0 evs c1 \<and>
           mFailure it1 = mFailure it + failures evs \<and>
           (fst (prepareDeleteExisting os it1 w1) \<longrightarrow>
              (\<exists>saved. (Save (mFilePathOut it) c1 (mCompression it), saved)
                 \<in> set (new_calls w1 w'))) \<and>
           (\<not> fst (prepareDeleteExisting os it1 w1) \<longrightarrow>
              \<not> r \<and> mFailure it' = mFailure it1 + 1 \<and>
              (new_calls w1 w' = [] \<or>
               new_calls w1 w' =
                 [(Rename (mFilePathOut it)
                     (backupFilePath (createUuid os (length (trace w1))) (mFilePathOut it)),
                   False)]))"
    using e a b unfolding m by blast
qed

theorem step_failures_continue_witness:
  "mFailure (fst (snd (process example_ext example_os example_chain example_fs))) = 1 \<and>
   (Save ''/out/a.jpg'' (example_pixels\<lparr>c_image := ''pixels+resized''\<rparr>) (- 1), True)
     \<in> set (trace (snd (snd (process example_ext example_os example_chain example_fs))))"
proof -
  let ?w0 = "record_call example_fs (Load ''/in/a.jpg'') True"
  let ?l = "process_loop (mProcessFunctions example_chain) example_pixels
              (append_log [''processing '' @ mFilePathIn example_chain] example_chain) ?w0"
  let ?p = "process example_ext example_os example_chain example_fs"
  have h1: "loadImage example_os (mFilePathIn example_chain) example_fs =
      (Some example_pixels, ?w0)"
    by (simp add: example_pixels_def example_failing_step_def example_chain_def example_ext_def
      example_resize_def resize_defs example_os_def example_os_denying_def example_fs_def
      example_overwrite_def DkBatchProcess_new_def example_backup process_defs)
  have h2: "\<not> isNull example_ext (c_image example_pixels)"
    by (simp add: example_pixels_def example_ext_def)
  have h3: "?l = (fst ?l, fst (snd ?l), snd (snd ?l))"
    by simp
  have h4: "?p = (fst ?p, fst (snd ?p), snd (snd ?p))"
    by simp
  show ?thesis
    using step_failures_continue [OF h1 h2 h3 h4, of "[]" example_failing_step
        "[Some (resize_step example_ext (example_resize (1 / 2) mode_default prop_default))]"]
    by (simp add: example_pixels_def example_failing_step_def example_chain_def example_ext_def
      example_resize_def resize_defs example_os_def example_os_denying_def example_fs_def
      example_overwrite_def DkBatchProcess_new_def example_backup process_defs)
qed

subsection \<open>Null entries of the chain\<close>

text \<open>
  C10, as the code behaves. The chain of the item below holds two null entries and its
  image loads; the item is in overwrite mode, its output exists, and a file with the
  name drawn for the back-up exists already. \<^verbatim>\<open>prepareDeleteExisting()\<close> fails,
  one failure is counted and \<^verbatim>\<open>process()\<close> returns: the load is the only call
  made, no save is attempted.
\<close>

theorem null_entries_counterexample:
  "mProcessFunctions example_nulls = [None, None] \<and>
   fst (loadImage example_os (mFilePathIn example_nulls) example_fs_collision) =
     Some example_pixels \<and>
   \<not> isNull example_ext (c_image example_pixels) \<and>
   trace (snd (snd (process example_ext example_os example_nulls example_fs_collision))) =
     [(Load ''/in/a.jpg'', True)] \<and>
   mFailure (fst (snd (process example_ext example_os example_nulls example_fs_collision))) = 1"
  by (simp add: example_pixels_def example_nulls_def example_fs_collision_def example_old_def
      example_ext_def example_os_def example_fs_def example_overwrite_def DkBatchProcess_new_def
      example_backup process_defs)

text \<open>
  C10, amended. A null entry anywhere in the chain only appends its log line: the
  entries after it run from the state the entries before it left. A chain of null
  entries leaves the container, the failure counter and the world as they are. With
  such a chain and an image that loads, \<^verbatim>\<open>process()\<close> is the save stage on the
  loaded container with the counter unchanged: the save is attempted exactly when
  \<^verbatim>\<open>prepareDeleteExisting()\<close> succeeds, and when it fails one failure is counted
  and \<^verbatim>\<open>process()\<close> returns false.
\<close>

theorem null_entries_skipped:
  "process_loop (bs @ None # bs') c it w =
           (case process_loop bs c it w of
              (c1, it1, w1) \<Rightarrow> process_loop bs' c1 (append_log [''Error: cannot process a NULL function.''] it1) w1) \<and>
         process_loop (replicate n None) c it w = (c, append_log (replicate n ''Error: cannot process a NULL function.'') it, w) \<and>
         (mProcessFunctions it = replicate n None \<and>
          loadImage os (mFilePathIn it) w = (Some c0, w0) \<and> \<not> isNull ext (c_image c0) \<and>
          it1 = append_log ((''processing '' @ mFilePathIn it) # replicate n ''Error: cannot process a NULL function.'') it \<and>
          w' = snd (snd (process ext os it w)) \<longrightarrow>
            mFailure it1 = mFailure it \<and>
            process ext os it w = process_save os c0 it1 w0 \<and>
            (fst (prepareDeleteExisting os it1 w0) \<longrightarrow>
               (\<exists>saved. (Save (mFilePathOut it) c0 (mCompression it), saved)
                  \<in> set (new_calls w0 w'))) \<and>
            (\<not> fst (prepareDeleteExisting os it1 w0) \<longrightarrow>
               \<not> fst (process ext os it w) \<and>
               mFailure (fst (snd (process ext os it w))) = mFailure it + 1 \<and>
               (new_calls w0 w' = [] \<or>
                new_calls w0 w' =
                  [(Rename (mFilePathOut it)
                      (backupFilePath (createUuid os (length (trace w0))) (mFilePathOut it)),
                    False)])))"
proof (intro conjI impI)
  show "process_loop (bs @ None # bs') c it w =
           (case process_loop bs c it w of
              (c1, it1, w1) \<Rightarrow> process_loop bs' c1 (append_log [''Error: cannot process a NULL function.''] it1) w1)"
    by (simp add: process_loop_append)
  show "process_loop (replicate n None) c it w = (c, append_log (replicate n ''Error: cannot process a NULL function.'') it, w)"
    by (simp add: process_loop_nulls)
next
  assume h: "mProcessFunctions it = replicate n None \<and>
          loadImage os (mFilePathIn it) w = (Some c0, w0) \<and> \<not> isNull ext (c_image c0) \<and>
          it1 = append_log ((''processing '' @ mFilePathIn it) # replicate n ''Error: cannot process a NULL function.'') it \<and>
          w' = snd (snd (process ext os it w))"
  have fr: "mFailure it1 = mFailure it" "mFilePathOut it1 = mFilePathOut it"
    "mCompression it1 = mCompression it"
    using h by (simp_all add: append_log_def)
  have p: "process ext os it w = process_save os c0 it1 w0"
    using h by (auto simp add: process_def Let_def process_loop_nulls append_log_def)
  show "mFailure it1 = mFailure it" by (rule fr)
  show "process ext os it w = process_save os c0 it1 w0" by (rule p)
  {
    assume ok: "fst (prepareDeleteExisting os it1 w0)"
    show "\<exists>saved. (Save (mFilePathOut it) c0 (mCompression it), saved) \<in> set (new_calls w0 w')"
      using process_save_attempt [OF ok, of c0] h p fr by auto
  }
  {
    assume no: "\<not> fst (prepareDeleteExisting os it1 w0)"
    from process_save_refused [OF no, of c0] h p fr
    show "\<not> fst (process ext os it w)"
      and "mFailure (fst (snd (process ext os it w))) = mFailure it + 1"
      and "new_calls w0 w' = [] \<or>
                new_calls w0 w' =
                  [(Rename (mFilePathOut it)
                      (backupFilePath (createUuid os (length (trace w0))) (mFilePathOut it)),
                    False)]"
      by simp_all
  }
qed

theorem null_entries_skipped_witness:
  "process_loop (replicate 2 None) example_pixels example_nulls example_fs =
     (example_pixels,
      append_log (replicate 2 ''Error: cannot process a NULL function.'') example_nulls,
      example_fs) \<and>
   mFailure (fst (snd (process example_ext example_os example_nulls example_fs))) = 0 \<and>
   (\<exists>saved. (Save ''/out/a.jpg'' example_pixels (- 1), saved)
      \<in> set (new_calls (record_call example_fs (Load ''/in/a.jpg'') True)
               (snd (snd (process example_ext example_os example_nulls example_fs)))))"
proof -
  let ?w0 = "record_call example_fs (Load ''/in/a.jpg'') True"
  let ?it1 = "append_log ((''processing '' @ mFilePathIn example_nulls) #
           replicate 2 ''Error: cannot process a NULL function.'') example_nulls"
  let ?w' = "snd (snd (process example_ext example_os example_nulls example_fs))"
  note t = null_entries_skipped [where bs = "[]" and bs' = "[None]" and c = example_pixels
        and it = example_nulls and w = example_fs and n = 2 and os = example_os and w0 = ?w0
        and c0 = example_pixels and ext = example_ext and ?it1.0 = ?it1 and w' = ?w']
  have h: "mProcessFunctions example_nulls = replicate 2 None \<and>
      loadImage example_os (mFilePathIn example_nulls) example_fs = (Some example_pixels, ?w0) \<and>
      \<not> isNull example_ext (c_image example_pixels) \<and> ?it1 = ?it1 \<and> ?w' = ?w'"
    by (simp add: example_pixels_def example_nulls_def example_fs_collision_def example_old_def
      example_ext_def example_os_def example_fs_def example_overwrite_def DkBatchProcess_new_def
      example_backup process_defs numeral_2_eq_2)
  have ok: "fst (prepareDeleteExisting example_os ?it1 ?w0)"
    by (simp add: example_pixels_def example_nulls_def example_fs_collision_def example_old_def
      example_ext_def example_os_def example_fs_def example_overwrite_def DkBatchProcess_new_def
      example_backup process_defs numeral_2_eq_2)
  have a: "process_loop (replicate 2 None) example_pixels example_nulls example_fs =
     (example_pixels,
      append_log (replicate 2 ''Error: cannot process a NULL function.'') example_nulls,
      example_fs)"
    using t by (rule conjunct1 [OF conjunct2])
  note c = mp [OF conjunct2 [OF conjunct2 [OF t]] h]
  have s: "\<exists>saved. (Save (mFilePathOut example_nulls) example_pixels (mCompression example_nulls),
              saved) \<in> set (new_calls ?w0 ?w')"
    using c ok by blast
  have p: "process example_ext example_os example_nulls example_fs =
      process_save example_os example_pixels ?it1 ?w0"
    using c by blast
  have f: "mFailure (fst (snd (process_save example_os example_pixels ?it1 ?w0))) = 0"
    by (simp add: example_pixels_def example_nulls_def example_fs_collision_def example_old_def
      example_ext_def example_os_def example_fs_def example_overwrite_def DkBatchProcess_new_def
      example_backup process_defs numeral_2_eq_2)
  have q: "mFilePathOut example_nulls = ''/out/a.jpg''" "mCompression example_nulls = - 1"
    by (simp_all add: example_pixels_def example_nulls_def example_fs_collision_def example_old_def
      example_ext_def example_os_def example_fs_def example_overwrite_def DkBatchProcess_new_def
      example_backup)
  show ?thesis
    using a s f unfolding p q by blast
qed

subsection \<open>The original file\<close>

lemma prepare_keeps:
  "file_exists w p \<Longrightarrow> p \<noteq> mFilePathOut it \<Longrightarrow>
     files (snd (snd (prepareDeleteExisting os it w))) p = files w p"
  by (auto simp add: prepareDeleteExisting_def QFile_rename_def Let_def record_call_def
      file_exists_def)

lemma save_keeps:
  "p \<noteq> q \<Longrightarrow> files (snd (saveImage os c q k w)) p = files w p"
  by (simp add: saveImage_def Let_def record_call_def)

lemma finalize_keeps:
  "p \<noteq> mFilePathOut it \<Longrightarrow> p \<noteq> mBackupFilePath it \<Longrightarrow>
     files (snd (snd (deleteOrRestoreExisting os it w))) p = files w p"
  by (simp add: deleteOrRestoreExisting_def QFile_rename_def QFile_remove_def Let_def
      record_call_def)

lemma copy_keeps:
  "p \<noteq> dst \<Longrightarrow> files (snd (QFile_copy os src dst w)) p = files w p"
  by (simp add: QFile_copy_def Let_def record_call_def)

lemma deleteOriginal_files:
  "files (snd (snd (deleteOriginalFile os it w))) =
     (if mFilePathIn it \<noteq> mFilePathOut it \<and> mFailure it = 0 \<and> mDeleteOriginal it \<and>
         fst (deleteOriginalFile os it w)
      then (files w)(mFilePathIn it := None) else files w)"
  by (simp add: deleteOriginalFile_def QFile_remove_def Let_def record_call_def)

lemma process_save_keeps:
  assumes "mBackupFilePath it = []" and "file_exists w p" and "p \<noteq> mFilePathOut it"
  shows "files (snd (snd (process_save os c it w))) p = files w p"
proof (cases "fst (prepareDeleteExisting os it w)")
  case False
  from process_save_refused [OF False, of c] show ?thesis by simp
next
  case True
  define it1 where "it1 = fst (snd (prepareDeleteExisting os it w))"
  define w1 where "w1 = snd (snd (prepareDeleteExisting os it w))"
  define s where "s = saveImage os c (mFilePathOut it) (mCompression it) w1"
  define it2 where "it2 =
    (if fst s then append_log [mFilePathOut it @ '' saved...''] it1
     else inc_failure (append_log [''Could not save: '' @ mFilePathOut it] it1))"
  define f where "f = deleteOrRestoreExisting os it2 (snd s)"
  define bu where "bu = backupFilePath (createUuid os (length (trace w))) (mFilePathOut it)"
  have w': "snd (snd (process_save os c it w)) = snd (snd f)"
    using True
    by (simp add: process_save_unfold Let_def w1_def s_def it2_def f_def it1_def)
  have k1: "files w1 p = files w p"
    unfolding w1_def using assms(2,3) by (rule prepare_keeps)
  have k2: "files (snd s) p = files w1 p"
    unfolding s_def using assms(3) by (rule save_keeps)
  have b2: "mBackupFilePath it2 =
      (if file_exists w (mFilePathOut it) \<and> DkBatchProcess.mMode it = mode_overwrite
       then bu else [])"
    using prepare_backup [of os it w] True assms(1)
    by (simp add: it2_def it1_def bu_def append_log_def inc_failure_def)
  have nb: "file_exists w (mFilePathOut it) \<and> DkBatchProcess.mMode it = mode_overwrite \<Longrightarrow>
      bu \<noteq> p"
    using prepare_ok_iff [of it w os] True assms(2) unfolding bu_def by auto
  have o2: "mFilePathOut it2 = mFilePathOut it"
    using prepare_frame [of os it w] by (simp add: it2_def it1_def append_log_def inc_failure_def)
  have pb: "p \<noteq> mBackupFilePath it2"
    using nb assms(2) unfolding b2 by (auto simp add: file_exists_def)
  have k3: "files (snd (snd f)) p = files (snd s) p"
    unfolding f_def using assms(3) pb o2 by (simp add: finalize_keeps)
  show ?thesis
    unfolding w' k3 k2 k1 ..
qed

lemma process_save_in_place:
  assumes "mBackupFilePath it = []" and "file_exists w (mFilePathOut it)"
    and "DkBatchProcess.mMode it = mode_overwrite"
    and "bu = backupFilePath (createUuid os (length (trace w))) (mFilePathOut it)"
    and "w' = snd (snd (process_save os c it w))"
  shows "files w' (mFilePathOut it) = files w (mFilePathOut it) \<or>
         (bu \<noteq> mFilePathOut it \<and> (Rename (mFilePathOut it) bu, True) \<in> set (new_calls w w') \<and>
          (files w' bu = files w (mFilePathOut it) \<or>
           ((Save (mFilePathOut it) c (mCompression it), True) \<in> set (new_calls w w') \<and>
            (Remove bu, True) \<in> set (new_calls w w') \<and>
            files w' (mFilePathOut it) = Some c \<and> files w' bu = None)))"
proof (cases "fst (prepareDeleteExisting os it w)")
  case False
  from process_save_refused [OF False, of c] show ?thesis
    unfolding assms(5) by simp
next
  case True
  let ?out = "mFilePathOut it"
  have bu_free: "\<not> file_exists w bu"
    and perm: "permits os (length (trace w)) (Rename ?out bu)"
    using True prepare_ok_iff [OF assms(3,2), of os] assms(4) by simp_all
  have ne: "bu \<noteq> ?out" "?out \<noteq> []" "bu \<noteq> []"
    using bu_free assms(2,4) by (auto simp: file_exists_def)
  show ?thesis
    using assms(1,2,3) bu_free perm ne
    unfolding assms(5) new_calls_def
    by (simp add: process_save_def prepareDeleteExisting_def deleteOrRestoreExisting_def
        saveImage_def QFile_rename_def QFile_remove_def record_call_def file_exists_def
        append_log_def inc_failure_def Let_def assms(4) [symmetric])
qed

lemma new_calls_later:
  "trace w1 = trace w @ xs \<Longrightarrow> trace w' = trace w1 @ ys \<Longrightarrow>
     set (new_calls w1 w') \<subseteq> set (new_calls w w')"
  by (simp add: new_calls_def)

lemma load_world:
  "files (snd (loadImage os p w)) = files w \<and>
   trace (snd (loadImage os p w)) = trace w @ [(Load p, fst (loadImage os p w) \<noteq> None)]"
  by (auto simp add: loadImage_def Let_def record_call_def file_exists_def)

lemma process_world:
  "process ext os it w = (r, it', w') \<Longrightarrow>
     (files w' = files w) \<or>
     (\<exists>c it1 w1 xs ys. files w1 = files w \<and> trace w1 = trace w @ xs \<and> trace w' = trace w1 @ ys \<and>
        mBackupFilePath it1 = mBackupFilePath it \<and> mFilePathOut it1 = mFilePathOut it \<and>
        DkBatchProcess.mMode it1 = DkBatchProcess.mMode it \<and>
        w' = snd (snd (process_save os c it1 w1)))"
proof -
  assume p: "process ext os it w = (r, it', w')"
  let ?it0 = "append_log [''processing '' @ mFilePathIn it] it"
  obtain loaded w0 where l: "loadImage os (mFilePathIn it) w = (loaded, w0)"
    by (cases "loadImage os (mFilePathIn it) w") auto
  have t0: "trace w0 = trace w @ [(Load (mFilePathIn it), loaded \<noteq> None)]"
    and f0: "files w0 = files w"
    using load_world [of os "mFilePathIn it" w] l by simp_all
  show ?thesis
  proof (cases "loaded = None \<or> isNull ext (c_image (the loaded))")
    case True
    then have "w' = w0"
      using l p by (simp add: process_def Let_def append_log_def)
    then show ?thesis using f0 by simp
  next
    case False
    obtain c1 it1 w1
      where lp: "process_loop (mProcessFunctions it) (the loaded) ?it0 w0 = (c1, it1, w1)"
      by (cases "process_loop (mProcessFunctions it) (the loaded) ?it0 w0") auto
    have ps: "process ext os it w = process_save os c1 it1 w1"
      using False l lp by (auto simp add: process_def Let_def append_log_def)
    from process_loop_calls [of "mProcessFunctions it" "the loaded" ?it0 w0]
    obtain evs where e: "trace w1 = trace w0 @ evs"
      unfolding lp by auto
    have fr: "mBackupFilePath it1 = mBackupFilePath it" "files w1 = files w"
      "mFilePathOut it1 = mFilePathOut it" "DkBatchProcess.mMode it1 = DkBatchProcess.mMode it"
      using process_loop_frame [of "mProcessFunctions it" "the loaded" ?it0 w0] f0
      unfolding lp by (simp_all add: append_log_def)
    obtain se where s: "trace (snd (snd (process_save os c1 it1 w1))) = trace w1 @ se"
      using process_save_prefix by blast
    have w': "w' = snd (snd (process_save os c1 it1 w1))"
      using p ps by simp
    have t1: "trace w1 = trace w @ ((Load (mFilePathIn it), loaded \<noteq> None) # evs)"
      using e t0 by simp
    show ?thesis
      using fr t1 s w' by blast
  qed
qed

lemma compute_world:
  assumes "DkBatchProcess_compute ext os it w = (r, it', w')"
  shows "w' = w \<or>
     (mProcessFunctions it = [] \<and> mFilePathIn it \<noteq> mFilePathOut it \<and>
      file_exists w (mFilePathIn it) \<and>
      (\<exists>it1 w1 b. files w1 (mFilePathIn it) = files w (mFilePathIn it) \<and>
         trace w1 = trace w @ [(Copy (mFilePathIn it) (mFilePathOut it), b)] \<and>
         mFilePathIn it1 = mFilePathIn it \<and> mFilePathOut it1 = mFilePathOut it \<and>
         (w' = w1 \<or> w' = snd (snd (deleteOriginalFile os it1 w1)))) \<or>
      mBackupFilePath it \<noteq> []) \<or>
     (file_exists w (mFilePathIn it) \<and>
      \<not> (file_exists w (mFilePathOut it) \<and> DkBatchProcess.mMode it = mode_skip_existing) \<and>
      w' = snd (snd (process ext os (it\<lparr>mIsProcessed := True\<rparr>) w)))"
proof -
  define it0 where "it0 = it\<lparr>mIsProcessed := True\<rparr>"
  have i0: "mBackupFilePath it0 = mBackupFilePath it" "mFilePathIn it0 = mFilePathIn it"
    "mFilePathOut it0 = mFilePathOut it" "mFailure it0 = mFailure it"
    "mDeleteOriginal it0 = mDeleteOriginal it"
    "mProcessFunctions it0 = mProcessFunctions it"
    "DkBatchProcess.mMode it0 = DkBatchProcess.mMode it"
    by (simp_all add: it0_def)
  let ?in = "mFilePathIn it" and ?out = "mFilePathOut it"
  consider (guard) "(file_exists w ?out \<and> DkBatchProcess.mMode it = mode_skip_existing) \<or>
        \<not> file_exists w ?in \<or> (?in = ?out \<and> mProcessFunctions it = [])"
    | (copy) "\<not> (file_exists w ?out \<and> DkBatchProcess.mMode it = mode_skip_existing)"
        "file_exists w ?in" "?in \<noteq> ?out" "mProcessFunctions it = []"
        "QFileInfo_suffix ?in = QFileInfo_suffix ?out"
    | (process) "\<not> (file_exists w ?out \<and> DkBatchProcess.mMode it = mode_skip_existing)"
        "file_exists w ?in"
        "\<not> (mProcessFunctions it = [] \<and> QFileInfo_suffix ?in = QFileInfo_suffix ?out)"
        "\<not> (?in = ?out \<and> mProcessFunctions it = [])"
    by blast
  then show ?thesis
  proof cases
    case guard
    then have "snd (snd (DkBatchProcess_compute ext os it w)) = w"
      by (auto simp add: DkBatchProcess_compute_def Let_def)
    then show ?thesis using assms by simp
  next
    case copy
    show ?thesis
    proof (cases "mBackupFilePath it = []")
      case False
      then show ?thesis using copy by simp
    next
      case True
      define cp where "cp = QFile_copy os ?in ?out w"
      define it1 where "it1 = fst (snd (copyFile os it0 w))"
      have b0: "mBackupFilePath it0 = []" using True i0 by simp
      have c1: "copyFile os it0 w = (fst cp, it1, snd cp)"
        unfolding it1_def by (simp add: copyFile_fresh [OF b0] i0 cp_def)
      have i1: "mFilePathIn it1 = ?in" "mFilePathOut it1 = ?out"
        unfolding it1_def by (simp_all add: copyFile_fresh [OF b0] i0 append_log_def)
      have w': "snd (snd (DkBatchProcess_compute ext os it w)) =
          (if fst cp then snd (snd (deleteOriginalFile os it1 (snd cp))) else snd cp)"
        using copy
        by (auto simp add: DkBatchProcess_compute_def Let_def it0_def [symmetric] i0 c1
            split: prod.splits)
      have tc: "trace (snd cp) = trace w @ [(Copy ?in ?out, fst cp)]"
        unfolding cp_def by (rule copy_calls)
      have fc: "files (snd cp) ?in = files w ?in"
        unfolding cp_def using copy(3) by (rule copy_keeps)
      have "w' = snd cp \<or> w' = snd (snd (deleteOriginalFile os it1 (snd cp)))"
        using w' assms by (simp split: if_splits)
      then show ?thesis
        using copy tc fc i1 by blast
    qed
  next
    case process
    have "snd (snd (DkBatchProcess_compute ext os it w)) = snd (snd (process ext os it0 w))"
      using process
      by (auto simp add: DkBatchProcess_compute_def Let_def it0_def [symmetric] i0
          split: prod.splits)
    then show ?thesis
      using process assms unfolding it0_def by simp
  qed
qed

lemma compute_keeps_input:
  assumes "mFilePathIn it \<noteq> mFilePathOut it" and "mBackupFilePath it = []"
    and "w' = snd (snd (DkBatchProcess_compute ext os it w))"
    and "(Remove (mFilePathIn it), True) \<notin> set (new_calls w w')"
  shows "files w' (mFilePathIn it) = files w (mFilePathIn it)"
proof -
  let ?in = "mFilePathIn it"
  obtain r it' where c: "DkBatchProcess_compute ext os it w = (r, it', w')"
    using assms(3) by (cases "DkBatchProcess_compute ext os it w") auto
  from compute_world [OF c]
  consider (same) "w' = w"
    | (copy) it1 w1 b where "files w1 ?in = files w ?in"
        "trace w1 = trace w @ [(Copy ?in (mFilePathOut it), b)]"
        "mFilePathIn it1 = ?in" "mFilePathOut it1 = mFilePathOut it"
        "w' = w1 \<or> w' = snd (snd (deleteOriginalFile os it1 w1))"
    | (process) "file_exists w ?in"
        "w' = snd (snd (process ext os (it\<lparr>mIsProcessed := True\<rparr>) w))"
    using assms(2) by blast
  then show ?thesis
  proof cases
    case same
    then show ?thesis by simp
  next
    case copy
    show ?thesis
    proof (cases "w' = w1")
      case True
      then show ?thesis using copy(1) by simp
    next
      case False
      then have d: "w' = snd (snd (deleteOriginalFile os it1 w1))"
        using copy(5) by simp
      have t: "trace w' = trace w1 @
         (if mFilePathIn it1 \<noteq> mFilePathOut it1 \<and> mFailure it1 = 0 \<and> mDeleteOriginal it1
          then [(Remove (mFilePathIn it1), fst (deleteOriginalFile os it1 w1))] else [])"
        unfolding d by (rule deleteOriginal_calls)
      have n: "\<not> (mFilePathIn it1 \<noteq> mFilePathOut it1 \<and> mFailure it1 = 0 \<and>
                  mDeleteOriginal it1 \<and> fst (deleteOriginalFile os it1 w1))"
        using assms(4) t copy(2,3) by (auto simp add: new_calls_def)
      have "files w' = files w1"
        unfolding d using n by (auto simp add: deleteOriginal_files)
      then show ?thesis using copy(1) by simp
    qed
  next
    case process
    let ?it0 = "it\<lparr>mIsProcessed := True\<rparr>"
    obtain r0 i0 where p: "process ext os ?it0 w = (r0, i0, w')"
      using process(2) by (cases "process ext os ?it0 w") auto
    from process_world [OF p]
    consider "files w' = files w"
      | c it1 w1 where "files w1 = files w" "mBackupFilePath it1 = mBackupFilePath ?it0"
          "mFilePathOut it1 = mFilePathOut ?it0" "w' = snd (snd (process_save os c it1 w1))"
      by blast
    then show ?thesis
    proof cases
      case 1
      then show ?thesis by simp
    next
      case 2
      have b: "mBackupFilePath it1 = []" using 2(2) assms(2) by simp
      have e: "file_exists w1 ?in" using process(1) 2(1) by (simp add: file_exists_def)
      have o: "?in \<noteq> mFilePathOut it1" using 2(3) assms(1) by simp
      show ?thesis
        unfolding 2(4) using process_save_keeps [OF b e o, of os c] 2(1) by simp
    qed
  qed
qed

lemma compute_in_place:
  assumes "mFilePathIn it = mFilePathOut it" and "mBackupFilePath it = []"
    and "file_exists w (mFilePathIn it)"
    and "w' = snd (snd (DkBatchProcess_compute ext os it w))"
  shows "files w' (mFilePathIn it) = files w (mFilePathIn it) \<or>
         (\<exists>bu c k. bu \<noteq> mFilePathIn it \<and>
            (Rename (mFilePathIn it) bu, True) \<in> set (new_calls w w') \<and>
            (files w' bu = files w (mFilePathIn it) \<or>
             ((Save (mFilePathIn it) c k, True) \<in> set (new_calls w w') \<and>
              (Remove bu, True) \<in> set (new_calls w w') \<and>
              files w' (mFilePathIn it) = Some c \<and> files w' bu = None)))"
proof -
  let ?in = "mFilePathIn it"
  obtain r it' where c: "DkBatchProcess_compute ext os it w = (r, it', w')"
    using assms(4) by (cases "DkBatchProcess_compute ext os it w") auto
  from compute_world [OF c]
  consider (same) "w' = w"
    | (process) "\<not> (file_exists w (mFilePathOut it) \<and> DkBatchProcess.mMode it = mode_skip_existing)"
        "w' = snd (snd (process ext os (it\<lparr>mIsProcessed := True\<rparr>) w))"
    using assms(1,2) by blast
  then show ?thesis
  proof cases
    case same
    then show ?thesis by simp
  next
    case process
    let ?it0 = "it\<lparr>mIsProcessed := True\<rparr>"
    have m: "DkBatchProcess.mMode it = mode_overwrite"
      using process(1) assms(1,3) by (cases "DkBatchProcess.mMode it") auto
    obtain r0 i0 where p: "process ext os ?it0 w = (r0, i0, w')"
      using process(2) by (cases "process ext os ?it0 w") auto
    from process_world [OF p]
    consider "files w' = files w"
      | c it1 w1 xs ys where "files w1 = files w" "trace w1 = trace w @ xs"
          "trace w' = trace w1 @ ys" "mBackupFilePath it1 = mBackupFilePath ?it0"
          "mFilePathOut it1 = mFilePathOut ?it0"
          "DkBatchProcess.mMode it1 = DkBatchProcess.mMode ?it0"
          "w' = snd (snd (process_save os c it1 w1))"
      by blast
    then show ?thesis
    proof cases
      case 1
      then show ?thesis by simp
    next
      case 2
      define bu where "bu = backupFilePath (createUuid os (length (trace w1))) (mFilePathOut it1)"
      have b: "mBackupFilePath it1 = []" using 2(4) assms(2) by simp
      have o: "mFilePathOut it1 = ?in" using 2(5) assms(1) by simp
      have e: "file_exists w1 (mFilePathOut it1)"
        using assms(3) 2(1) o by (simp add: file_exists_def)
      have m1: "DkBatchProcess.mMode it1 = mode_overwrite" using 2(6) m by simp
      note ip = process_save_in_place [OF b e m1 bu_def 2(7)]
      have sub: "set (new_calls w1 w') \<subseteq> set (new_calls w w')"
        using 2(2,3) by (rule new_calls_later)
      show ?thesis
        using ip sub unfolding o 2(1) by blast
    qed
  qed
qed

lemmas compute_defs =
  DkBatchProcess_compute_def copyFile_def deleteOriginalFile_def QFile_copy_def
  QFileInfo_suffix_def QFileInfo_fileName_def QFileInfo_baseName_def QFileInfo_absolutePath_def
  backupFilePath_def process_defs

lemma example_in_place_run:
  "DkBatchProcess_compute example_ext example_os example_in_place example_fs =
     (False,
      example_in_place
        \<lparr>mLogStrings :=
           [''processing /in/a.jpg'', ''[Failing Batch] error'', ''[Failing Batch] failed'',
            ''[Resize Batch] image resized, scale factor: <float>%'', ''/in/a.jpg saved...''],
         mFailure := 1, mIsProcessed := True, mBackupFilePath := ''/in/a{uuid}.jpg''\<rparr>,
      \<lparr>files = [''/out/a.jpg'' \<mapsto> example_old,
                ''/in/a.jpg'' \<mapsto> example_pixels\<lparr>c_image := ''pixels+resized''\<rparr>],
       trace =
         [(Load ''/in/a.jpg'', True),
          (Compute ''[Failing Batch]'' example_pixels example_pixels, False),
          (Compute ''[Resize Batch]'' example_pixels
             (example_pixels\<lparr>c_image := ''pixels+resized''\<rparr>), True),
          (Rename ''/in/a.jpg'' ''/in/a{uuid}.jpg'', True),
          (Save ''/in/a.jpg'' (example_pixels\<lparr>c_image := ''pixels+resized''\<rparr>) (- 1), True),
          (Remove ''/in/a{uuid}.jpg'', True)]\<rparr>)"
  by (auto simp add: example_in_place_def example_pixels_def example_old_def
      example_failing_step_def example_ext_def example_resize_def resize_defs example_os_def
      example_fs_def DkBatchProcess_new_def compute_defs fun_eq_iff)

lemma compute_remove_input:
  "mBackupFilePath it = [] \<and>
    (Remove (mFilePathIn it), b)
      \<in> set (new_calls w (snd (snd (DkBatchProcess_compute ext os it w)))) \<longrightarrow>
      mDeleteOriginal it \<and> mFilePathIn it \<noteq> mFilePathOut it \<and> mFailure it = 0"
proof (rule impI)
  assume a: "mBackupFilePath it = [] \<and>
    (Remove (mFilePathIn it), b)
      \<in> set (new_calls w (snd (snd (DkBatchProcess_compute ext os it w))))"
  define it0 where "it0 = it\<lparr>mIsProcessed := True\<rparr>"
  have i0: "mBackupFilePath it0 = []" "mFilePathIn it0 = mFilePathIn it"
    "mFilePathOut it0 = mFilePathOut it" "mFailure it0 = mFailure it"
    "mDeleteOriginal it0 = mDeleteOriginal it"
    "mProcessFunctions it0 = mProcessFunctions it"
    "DkBatchProcess.mMode it0 = DkBatchProcess.mMode it"
    using a by (simp_all add: it0_def)
  let ?in = "mFilePathIn it" and ?out = "mFilePathOut it"
  consider (guard) "(file_exists w ?out \<and> DkBatchProcess.mMode it = mode_skip_existing) \<or>
        \<not> file_exists w ?in \<or> (?in = ?out \<and> mProcessFunctions it = [])"
    | (copy) "\<not> (file_exists w ?out \<and> DkBatchProcess.mMode it = mode_skip_existing)"
        "file_exists w ?in" "?in \<noteq> ?out" "mProcessFunctions it = []"
        "QFileInfo_suffix ?in = QFileInfo_suffix ?out"
    | (process) "\<not> (file_exists w ?out \<and> DkBatchProcess.mMode it = mode_skip_existing)"
        "file_exists w ?in"
        "\<not> (mProcessFunctions it = [] \<and> QFileInfo_suffix ?in = QFileInfo_suffix ?out)"
        "\<not> (?in = ?out \<and> mProcessFunctions it = [])"
    by blast
  then show "mDeleteOriginal it \<and> mFilePathIn it \<noteq> mFilePathOut it \<and> mFailure it = 0"
  proof cases
    case guard
    then have "snd (snd (DkBatchProcess_compute ext os it w)) = w"
      by (auto simp add: DkBatchProcess_compute_def Let_def)
    with a show ?thesis by (simp add: new_calls_def)
  next
    case copy
    define cp where "cp = QFile_copy os ?in ?out w"
    define it1 where "it1 = fst (snd (copyFile os it0 w))"
    have c1: "copyFile os it0 w = (fst cp, it1, snd cp)"
      unfolding it1_def by (simp add: copyFile_fresh [OF i0(1)] i0 cp_def)
    have i1: "mFilePathIn it1 = ?in" "mFilePathOut it1 = ?out" "mFailure it1 = mFailure it"
      "mDeleteOriginal it1 = mDeleteOriginal it"
      unfolding it1_def by (simp_all add: copyFile_fresh [OF i0(1)] i0 append_log_def)
    have w': "snd (snd (DkBatchProcess_compute ext os it w)) =
        (if fst cp then snd (snd (deleteOriginalFile os it1 (snd cp))) else snd cp)"
      using copy
      by (auto simp add: DkBatchProcess_compute_def Let_def it0_def [symmetric] i0 c1
          split: prod.splits)
    have tc: "trace (snd cp) = trace w @ [(Copy ?in ?out, fst cp)]"
      unfolding cp_def by (rule copy_calls)
    show ?thesis
      using a deleteOriginal_calls [of os it1 "snd cp"]
      unfolding w' new_calls_def
      by (auto simp add: tc i1 split: if_splits)
  next
    case process
    have "snd (snd (DkBatchProcess_compute ext os it w)) = snd (snd (process ext os it0 w))"
      using process
      by (auto simp add: DkBatchProcess_compute_def Let_def it0_def [symmetric] i0
          split: prod.splits)
    with a process_no_remove [of it0 w b ext os] process(2) i0 show ?thesis
      by simp
  qed
qed

text \<open>
  C9, as the code behaves. The item below has equal input and output paths, two steps
  of which the first fails, overwrite mode and the delete-original flag unset.
  \<^verbatim>\<open>prepareDeleteExisting()\<close> renames the input file to the back-up name (line 621),
  the save writes the new image to the path, and \<^verbatim>\<open>deleteOrRestoreExisting()\<close>
  removes the back-up (line 639), which is the original file. Afterwards one failure is
  counted and no path holds the original content.
\<close>

theorem original_counterexample:
  "mFilePathIn example_in_place = mFilePathOut example_in_place \<and>
   mDeleteOriginal example_in_place = False \<and>
   files example_fs (mFilePathIn example_in_place) = Some example_pixels \<and>
   DkBatchProcess_compute example_ext example_os example_in_place example_fs =
     (False,
      example_in_place
        \<lparr>mLogStrings :=
           [''processing /in/a.jpg'', ''[Failing Batch] error'', ''[Failing Batch] failed'',
            ''[Resize Batch] image resized, scale factor: <float>%'', ''/in/a.jpg saved...''],
         mFailure := 1, mIsProcessed := True, mBackupFilePath := ''/in/a{uuid}.jpg''\<rparr>,
      \<lparr>files = [''/out/a.jpg'' \<mapsto> example_old,
                ''/in/a.jpg'' \<mapsto> example_pixels\<lparr>c_image := ''pixels+resized''\<rparr>],
       trace =
         [(Load ''/in/a.jpg'', True),
          (Compute ''[Failing Batch]'' example_pixels example_pixels, False),
          (Compute ''[Resize Batch]'' example_pixels
             (example_pixels\<lparr>c_image := ''pixels+resized''\<rparr>), True),
          (Rename ''/in/a.jpg'' ''/in/a{uuid}.jpg'', True),
          (Save ''/in/a.jpg'' (example_pixels\<lparr>c_image := ''pixels+resized''\<rparr>) (- 1), True),
          (Remove ''/in/a{uuid}.jpg'', True)]\<rparr>)"
  using example_in_place_run
  by (simp add: example_in_place_def DkBatchProcess_new_def example_fs_def example_pixels_def)

text \<open>
  C9, amended. \<^verbatim>\<open>deleteOriginalFile()\<close> leaves the file system and the trace as
  they are when the paths are equal, when a failure is recorded or when the
  delete-original flag is not set. For an item whose back-up path is still unset, as
  the constructor leaves it: \<^verbatim>\<open>compute()\<close> calls a removal of the input path only
  when the flag is set, the input path differs from the output path and the counter
  is zero; when the two paths differ, the input path holds its content after
  \<^verbatim>\<open>compute()\<close> unless that removal succeeded; when the two paths are equal and
  the file exists, either the path holds its content after \<^verbatim>\<open>compute()\<close>, or the
  file was renamed to a back-up name, and then the back-up still holds the original, or
  it was removed after a save that succeeded and left the new content at the path,
  whatever the flag and the counter.
\<close>

theorem original_kept:
  "(mFilePathIn it = mFilePathOut it \<or> mFailure it \<noteq> 0 \<or> \<not> mDeleteOriginal it \<longrightarrow>
      snd (snd (deleteOriginalFile os it w)) = w) \<and>
   (mBackupFilePath it = [] \<and>
    (Remove (mFilePathIn it), b)
      \<in> set (new_calls w (snd (snd (DkBatchProcess_compute ext os it w)))) \<longrightarrow>
      mDeleteOriginal it \<and> mFilePathIn it \<noteq> mFilePathOut it \<and> mFailure it = 0) \<and>
   (mBackupFilePath it = [] \<and> mFilePathIn it \<noteq> mFilePathOut it \<and>
    (Remove (mFilePathIn it), True)
      \<notin> set (new_calls w (snd (snd (DkBatchProcess_compute ext os it w)))) \<longrightarrow>
      files (snd (snd (DkBatchProcess_compute ext os it w))) (mFilePathIn it) =
        files w (mFilePathIn it)) \<and>
   (mBackupFilePath it = [] \<and> mFilePathIn it = mFilePathOut it \<and>
    file_exists w (mFilePathIn it) \<longrightarrow>
      files (snd (snd (DkBatchProcess_compute ext os it w))) (mFilePathIn it) =
        files w (mFilePathIn it) \<or>
      (\<exists>bu c k. bu \<noteq> mFilePathIn it \<and>
         (Rename (mFilePathIn it) bu, True)
           \<in> set (new_calls w (snd (snd (DkBatchProcess_compute ext os it w)))) \<and>
         (files (snd (snd (DkBatchProcess_compute ext os it w))) bu = files w (mFilePathIn it) \<or>
          ((Save (mFilePathIn it) c k, True)
             \<in> set (new_calls w (snd (snd (DkBatchProcess_compute ext os it w)))) \<and>
           (Remove bu, True)
             \<in> set (new_calls w (snd (snd (DkBatchProcess_compute ext os it w)))) \<and>
           files (snd (snd (DkBatchProcess_compute ext os it w))) (mFilePathIn it) = Some c \<and>
           files (snd (snd (DkBatchProcess_compute ext os it w))) bu = None))))"
proof (intro conjI)
  show "mFilePathIn it = mFilePathOut it \<or> mFailure it \<noteq> 0 \<or> \<not> mDeleteOriginal it \<longrightarrow>
      snd (snd (deleteOriginalFile os it w)) = w"
    using deleteOriginal_unchanged [of it os w] by blast
  show "mBackupFilePath it = [] \<and>
    (Remove (mFilePathIn it), b)
      \<in> set (new_calls w (snd (snd (DkBatchProcess_compute ext os it w)))) \<longrightarrow>
      mDeleteOriginal it \<and> mFilePathIn it \<noteq> mFilePathOut it \<and> mFailure it = 0"
    by (rule compute_remove_input)
  show "mBackupFilePath it = [] \<and> mFilePathIn it \<noteq> mFilePathOut it \<and>
    (Remove (mFilePathIn it), True)
      \<notin> set (new_calls w (snd (snd (DkBatchProcess_compute ext os it w)))) \<longrightarrow>
      files (snd (snd (DkBatchProcess_compute ext os it w))) (mFilePathIn it) =
        files w (mFilePathIn it)"
    using compute_keeps_input [of it _ ext os w] by blast
  show "mBackupFilePath it = [] \<and> mFilePathIn it = mFilePathOut it \<and>
    file_exists w (mFilePathIn it) \<longrightarrow>
      files (snd (snd (DkBatchProcess_compute ext os it w))) (mFilePathIn it) =
        files w (mFilePathIn it) \<or>
      (\<exists>bu c k. bu \<noteq> mFilePathIn it \<and>
         (Rename (mFilePathIn it) bu, True)
           \<in> set (new_calls w (snd (snd (DkBatchProcess_compute ext os it w)))) \<and>
         (files (snd (snd (DkBatchProcess_compute ext os it w))) bu = files w (mFilePathIn it) \<or>
          ((Save (mFilePathIn it) c k, True)
             \<in> set (new_calls w (snd (snd (DkBatchProcess_compute ext os it w)))) \<and>
           (Remove bu, True)
             \<in> set (new_calls w (snd (snd (DkBatchProcess_compute ext os it w)))) \<and>
           files (snd (snd (DkBatchProcess_compute ext os it w))) (mFilePathIn it) = Some c \<and>
           files (snd (snd (DkBatchProcess_compute ext os it w))) bu = None)))"
    using compute_in_place [of it w _ ext os] by blast
qed

theorem original_kept_witness:
  "snd (snd (deleteOriginalFile example_os (example_copy\<lparr>mFailure := 1\<rparr>) example_fs)) =
     example_fs \<and>
   (Remove ''/in/a.jpg'', True)
     \<in> set (new_calls example_fs
              (snd (snd (DkBatchProcess_compute example_ext example_os example_copy example_fs)))) \<and>
   mDeleteOriginal example_copy \<and> mFilePathIn example_copy \<noteq> mFilePathOut example_copy \<and>
   mFailure example_copy = 0 \<and>
   files (snd (snd (DkBatchProcess_compute example_ext example_os
                      (example_copy\<lparr>mDeleteOriginal := False\<rparr>) example_fs))) ''/in/a.jpg'' =
     Some example_pixels \<and>
   files (snd (snd (DkBatchProcess_compute example_ext example_os example_in_place example_fs)))
     ''/in/a.jpg'' = Some (example_pixels\<lparr>c_image := ''pixels+resized''\<rparr>)"
proof -
  have r: "(Remove (mFilePathIn example_copy), True)
     \<in> set (new_calls example_fs
              (snd (snd (DkBatchProcess_compute example_ext example_os example_copy example_fs))))"
    by (simp add: example_copy_def example_os_def example_fs_def DkBatchProcess_new_def
        new_calls_def compute_defs)
  have b: "mBackupFilePath example_copy = []"
    by (simp add: example_copy_def example_os_def example_fs_def DkBatchProcess_new_def)
  let ?keep = "example_copy\<lparr>mDeleteOriginal := False\<rparr>"
  have k: "mBackupFilePath ?keep = [] \<and> mFilePathIn ?keep \<noteq> mFilePathOut ?keep \<and>
      (Remove (mFilePathIn ?keep), True)
        \<notin> set (new_calls example_fs
                 (snd (snd (DkBatchProcess_compute example_ext example_os ?keep example_fs))))"
    by (simp add: example_copy_def example_os_def example_fs_def DkBatchProcess_new_def
        new_calls_def compute_defs)
  have p: "mBackupFilePath example_in_place = [] \<and>
      mFilePathIn example_in_place = mFilePathOut example_in_place \<and>
      file_exists example_fs (mFilePathIn example_in_place)"
    by (simp add: example_in_place_def example_fs_def DkBatchProcess_new_def file_exists_def)
  note t1 = original_kept [of "example_copy\<lparr>mFailure := 1\<rparr>" example_os example_fs]
  note t2 = original_kept [of example_copy example_os example_fs True example_ext]
  note t3 = original_kept [of ?keep example_os example_fs True example_ext]
  note t4 = original_kept [of example_in_place example_os example_fs True example_ext]
  have a1: "snd (snd (deleteOriginalFile example_os (example_copy\<lparr>mFailure := 1\<rparr>) example_fs)) =
     example_fs"
    using t1 [THEN conjunct1] by simp
  have a2: "mDeleteOriginal example_copy \<and> mFilePathIn example_copy \<noteq> mFilePathOut example_copy \<and>
      mFailure example_copy = 0"
    using t2 [THEN conjunct2, THEN conjunct1] r b by blast
  have a3: "files (snd (snd (DkBatchProcess_compute example_ext example_os ?keep example_fs)))
      (mFilePathIn ?keep) = files example_fs (mFilePathIn ?keep)"
    using t3 [THEN conjunct2, THEN conjunct2, THEN conjunct1] k by blast
  have a4: "files (snd (snd (DkBatchProcess_compute example_ext example_os example_in_place
                               example_fs))) ''/in/a.jpg'' =
      Some (example_pixels\<lparr>c_image := ''pixels+resized''\<rparr>)"
    using mp [OF t4 [THEN conjunct2, THEN conjunct2, THEN conjunct2] p]
    by (simp add: example_in_place_run)
  have i: "mFilePathIn example_copy = ''/in/a.jpg''" "mFilePathIn ?keep = ''/in/a.jpg''"
    "files example_fs ''/in/a.jpg'' = Some example_pixels"
    by (simp_all add: example_copy_def DkBatchProcess_new_def example_fs_def example_pixels_def)
  show ?thesis
    using a1 a2 a3 a4 r unfolding i by simp
qed

subsection \<open>Polling the results\<close>

lemma results_loop_spec:
  "length res \<le> length items \<Longrightarrow>
     \<exists>res'. results_loop idx items res = Some res' \<and> length res' = length res \<and>
       (\<forall>i<length res. res' ! i =
          (if i < idx then res ! i
           else if res ! i \<noteq> batch_item_not_computed then res ! i
           else classify (items ! i)))"
proof (induction idx items res rule: results_loop.induct)
  case (1 idx items res)
  show ?case
  proof (cases "idx < length res")
    case False
    then show ?thesis
      by (subst results_loop.simps) simp
  next
    case in_range: True
    show ?thesis
    proof (cases "res ! idx \<noteq> batch_item_not_computed")
      case True
      from "1.IH"(1) [OF in_range True "1.prems"]
      obtain res' where r: "results_loop (Suc idx) items res = Some res'"
        "length res' = length res"
        "\<forall>i<length res. res' ! i =
          (if i < Suc idx then res ! i
           else if res ! i \<noteq> batch_item_not_computed then res ! i
           else classify (items ! i))"
        by blast
      have "results_loop idx items res = Some res'"
        using in_range True r(1) by (subst results_loop.simps) simp
      moreover have "\<forall>i<length res. res' ! i =
          (if i < idx then res ! i
           else if res ! i \<noteq> batch_item_not_computed then res ! i
           else classify (items ! i))"
        using r(3) True by (auto simp add: less_Suc_eq)
      ultimately show ?thesis using r(2) by blast
    next
      case False
      define res2 where "res2 =
        (if wasProcessed (items ! idx)
         then res[idx := (if hasFailed (items ! idx) then batch_item_failed
                          else batch_item_succeeded)]
         else res)"
      have l2: "length res2 = length res"
        by (simp add: res2_def)
      have it: "idx < length items"
        using in_range "1.prems" by simp
      from "1.IH"(2) [OF in_range False it] "1.prems" l2
      obtain res' where r: "results_loop (Suc idx) items res2 = Some res'"
        "length res' = length res"
        "\<forall>i<length res. res' ! i =
          (if i < Suc idx then res2 ! i
           else if res2 ! i \<noteq> batch_item_not_computed then res2 ! i
           else classify (items ! i))"
        unfolding res2_def [symmetric] by auto
      have "results_loop idx items res = Some res'"
        using in_range False it r(1) unfolding res2_def
        by (subst results_loop.simps) simp
      moreover have "\<forall>i<length res. res' ! i =
          (if i < idx then res ! i
           else if res ! i \<noteq> batch_item_not_computed then res ! i
           else classify (items ! i))"
        using r(3) False in_range
        by (auto simp add: less_Suc_eq res2_def classify_def nth_list_update)
      ultimately show ?thesis using r(2) by blast
    qed
  qed
qed

lemma getCurrentResults_spec:
  assumes "length (mResList r) \<le> length (mBatchItems r)"
  shows "\<exists>res. getCurrentResults r = Some (res, r\<lparr>mResList := res\<rparr>) \<and>
           length res = (if mResList r = [] then length (mBatchItems r) else length (mResList r)) \<and>
           (\<forall>i<length res. res ! i =
              (if i < length (mResList r) \<and> mResList r ! i \<noteq> batch_item_not_computed
               then mResList r ! i else classify (mBatchItems r ! i)))"
proof -
  define res0 where "res0 =
    (if mResList r = [] then replicate (length (mBatchItems r)) batch_item_not_computed
     else mResList r)"
  have l: "length res0 \<le> length (mBatchItems r)"
    using assms by (simp add: res0_def)
  from results_loop_spec [OF l, of 0]
  obtain res where r: "results_loop 0 (mBatchItems r) res0 = Some res"
    "length res = length res0"
    "\<forall>i<length res0. res ! i =
       (if res0 ! i \<noteq> batch_item_not_computed then res0 ! i else classify (mBatchItems r ! i))"
    by auto
  have g: "getCurrentResults r = Some (res, r\<lparr>mResList := res\<rparr>)"
    using r(1) by (simp add: getCurrentResults_def res0_def [symmetric])
  have len: "length res = (if mResList r = [] then length (mBatchItems r) else length (mResList r))"
    using r(2) by (simp add: res0_def)
  have "\<forall>i<length res. res ! i =
              (if i < length (mResList r) \<and> mResList r ! i \<noteq> batch_item_not_computed
               then mResList r ! i else classify (mBatchItems r ! i))"
    using r(3) r(2) by (auto simp add: res0_def split: if_splits)
  with g len show ?thesis by blast
qed

lemma poll_stable:
  "\<forall>items\<in>set snaps. length items = n \<Longrightarrow> length (mResList r) \<le> n \<Longrightarrow>
     \<exists>r'. poll r snaps = Some r' \<and>
       (\<forall>i<length (mResList r). mResList r ! i \<noteq> batch_item_not_computed \<longrightarrow>
          i < length (mResList r') \<and> mResList r' ! i = mResList r ! i)"
proof (induction snaps arbitrary: r)
  case Nil
  then show ?case by simp
next
  case (Cons items snaps)
  let ?r0 = "r\<lparr>mBatchItems := items\<rparr>"
  have n: "length items = n" using Cons.prems(1) by simp
  have "length (mResList ?r0) \<le> length (mBatchItems ?r0)"
    using Cons.prems(2) n by simp
  from getCurrentResults_spec [OF this]
  obtain res where g: "getCurrentResults ?r0 = Some (res, ?r0\<lparr>mResList := res\<rparr>)"
    "length res = (if mResList r = [] then length items else length (mResList r))"
    "\<forall>i<length res. res ! i =
        (if i < length (mResList r) \<and> mResList r ! i \<noteq> batch_item_not_computed
         then mResList r ! i else classify (items ! i))"
    by auto
  let ?r1 = "?r0\<lparr>mResList := res\<rparr>"
  have l1: "length (mResList ?r1) \<le> n"
    using g(2) n Cons.prems(2) by (simp split: if_splits)
  from Cons.IH [of ?r1] Cons.prems(1) l1
  obtain r' where p: "poll ?r1 snaps = Some r'"
    "\<forall>i<length res. res ! i \<noteq> batch_item_not_computed \<longrightarrow>
          i < length (mResList r') \<and> mResList r' ! i = res ! i"
    by auto
  have "poll r (items # snaps) = Some r'"
    using g(1) p(1) by simp
  moreover have "\<forall>i<length (mResList r). mResList r ! i \<noteq> batch_item_not_computed \<longrightarrow>
          i < length (mResList r') \<and> mResList r' ! i = mResList r ! i"
  proof (intro allI impI)
    fix i assume i: "i < length (mResList r)" "mResList r ! i \<noteq> batch_item_not_computed"
    then have "i < length res" "res ! i = mResList r ! i"
      using g(2) g(3) by (auto split: if_splits)
    with p(2) i show "i < length (mResList r') \<and> mResList r' ! i = mResList r ! i"
      by auto
  qed
  ultimately show ?case by blast
qed

text \<open>
  C7. An entry of the result list is one of \<open>batch_item_not_computed\<close>,
  \<open>batch_item_succeeded\<close> and \<open>batch_item_failed\<close>, by its type. While the result
  list is not longer than the list of items, \<^verbatim>\<open>getCurrentResults()\<close> returns, keeps
  every entry that is succeeded or failed, and gives an entry that is not computed the
  classification of its item: failed or succeeded by \<^verbatim>\<open>hasFailed()\<close> once the item
  \<^verbatim>\<open>wasProcessed()\<close>, not computed until then. Through any sequence of calls,
  whatever the items have become between them, an entry that is succeeded or failed
  stays as it is.
\<close>

theorem results_stable:
  assumes "\<forall>items\<in>set snaps. length items = length (mBatchItems r)"
    and "length (mResList r) \<le> length (mBatchItems r)"
  shows "(\<exists>res. getCurrentResults r = Some (res, r\<lparr>mResList := res\<rparr>) \<and>
            length res =
              (if mResList r = [] then length (mBatchItems r) else length (mResList r)) \<and>
            (\<forall>i<length res. res ! i =
               (if i < length (mResList r) \<and> mResList r ! i \<noteq> batch_item_not_computed
                then mResList r ! i else classify (mBatchItems r ! i)))) \<and>
         (\<exists>r'. poll r snaps = Some r' \<and>
            (\<forall>i<length (mResList r). mResList r ! i \<noteq> batch_item_not_computed \<longrightarrow>
               i < length (mResList r') \<and> mResList r' ! i = mResList r ! i))"
  using getCurrentResults_spec [OF assms(2)] poll_stable [OF assms] by blast

theorem results_stable_witness:
  "getCurrentResults example_runner =
     Some ([batch_item_succeeded, batch_item_not_computed], example_runner) \<and>
   poll example_runner example_snaps =
     Some \<lparr>mBatchItems = [example_state True 1, example_state True 2],
           mResList = [batch_item_succeeded, batch_item_failed]\<rparr>"
proof -
  have a: "\<forall>items\<in>set example_snaps. length items = length (mBatchItems example_runner)"
    by (simp add: example_snaps_def example_runner_def)
  have b: "length (mResList example_runner) \<le> length (mBatchItems example_runner)"
    by (simp add: example_runner_def)
  show ?thesis
    using results_stable [OF a b]
    by (simp add: example_runner_def example_snaps_def example_state_def DkBatchProcess_new_def
        getCurrentResults_def results_loop.simps wasProcessed_def hasFailed_def Let_def)
qed

subsection \<open>The transform step\<close>

text \<open>
  The container that \<^verbatim>\<open>DkBatchTransform::compute\<close> leaves is the one given, cropped
  when the crop is asked for and the stored region is not empty; an active step fails
  exactly when the rotated and mirrored image is null.
\<close>

lemma transform_container:
  "fst (snd (DkBatchTransform_compute ext p container logStrings)) =
     (if mCropFromMetadata p \<and> \<not> rect_isEmpty ext (c_cropRect container)
      then cropImage ext container (c_cropRect container) else container)"
  by (simp add: DkBatchTransform_compute_def DkBatchTransform_isActive_def Let_def)

lemma transform_fails_iff:
  "DkBatchTransform_isActive p \<Longrightarrow>
     fst (DkBatchTransform_compute ext p container logStrings) =
       (\<not> isNull ext (transform_result ext p container))"
  by (simp add: DkBatchTransform_compute_def transform_result_def Let_def)

text \<open>
  C3, on the code. The step below has the crop flag set and an angle of 90, and the
  container holds a crop region that is not empty. \<^verbatim>\<open>compute()\<close> crops the
  container, rotates and mirrors a local copy of its image, and returns true: the
  container keeps the cropped image, not the rotated one that lines 230-238 computed.
\<close>

theorem transform_result_dropped:
  "rect_isEmpty example_ext (c_cropRect example_with_crop) = False \<and>
   DkBatchTransform_compute example_ext example_transform example_with_crop [] =
     (True, example_with_crop\<lparr>c_image := ''pixels+cropped''\<rparr>,
      [''[Transform Batch] image transformed and cropped.'']) \<and>
   transform_result example_ext example_transform example_with_crop = ''pixels+cropped+rotated''"
  by (simp add: example_ext_def example_transform_def example_with_crop_def
      DkBatchTransform_compute_def DkBatchTransform_isActive_def transform_result_def
      DkBatchTransform_name_def Let_def)

end
